theory Spec2Isabelle
  imports Main "HOL-Library.AList"
begin

section \<open>dn2osdbk: DocUtils native XML to DocBook\<close>

text \<open>
  A shallow embedding of \<^verbatim>\<open>os_doc_tools/dn2osdbk.py\<close>. Exceptions are values of
  \<open>py_error\<close>; a computation that may raise returns \<open>py_error + 'a\<close>, with
  \<open>Inl\<close> the exception. Strings are \<open>char list\<close>; a character is a byte, and
  \<open>\d\<close> and \<open>lower()\<close> are the ASCII ones.
\<close>

datatype py_error =
    AttributeError | TypeError | ValueError | KeyError | NotImplementedError
  | IOError | OSError | XMLSyntaxError | XSLTError | FormatNotModelled

subsection \<open>lxml trees\<close>

text \<open>
  A node of an lxml tree: an element with its tag (\<open>{namespace}local\<close>), its attributes in
  document order, its text, its children and its tail; or a comment or a processing
  instruction, which carry no attributes (\<open>get\<close> answers \<open>None\<close> on both).
\<close>

datatype xml =
    Element (tag: string) (attrib: "(string \<times> string) list") (node_text: "string option")
            (children: "xml list") (tail: "string option")
  | Comment string "string option"
  | PI string string "string option"

text \<open>\<open>item.get(key)\<close>\<close>

fun get :: "xml \<Rightarrow> string \<Rightarrow> string option" where
  "get (Element t a x ch ta) key = map_of a key"
| "get (Comment c ta) key = None"
| "get (PI p c ta) key = None"

text \<open>\<open>item.attrib[key] = v\<close>, used by the source on elements only\<close>

fun attrib_set :: "xml \<Rightarrow> string \<Rightarrow> string \<Rightarrow> xml" where
  "attrib_set (Element t a x ch ta) key v = Element t (AList.update key v a) x ch ta"
| "attrib_set (Comment c ta) key v = Comment c ta"
| "attrib_set (PI p c ta) key v = PI p c ta"

text \<open>\<open>tree.iter()\<close>: every node of the tree in document order, the root first\<close>

fun iter :: "xml \<Rightarrow> xml list" where
  "iter (Element t a x ch ta) = Element t a x ch ta # concat (map iter ch)"
| "iter (Comment c ta) = [Comment c ta]"
| "iter (PI p c ta) = [PI p c ta]"

subsection \<open>Python string operations\<close>

text \<open>\<open>s.split(sep)\<close> with a one-character separator: never empty, one piece more than
  there are separators.\<close>

fun split :: "char \<Rightarrow> string \<Rightarrow> string list" where
  "split sep [] = [[]]"
| "split sep (c # cs) =
     (if c = sep then [] # split sep cs
      else (case split sep cs of
              [] \<Rightarrow> [[c]]
            | w # ws \<Rightarrow> (c # w) # ws))"

text \<open>\<open>sep.join(xs)\<close>\<close>

fun join :: "string \<Rightarrow> string list \<Rightarrow> string" where
  "join sep [] = []"
| "join sep [x] = x"
| "join sep (x # y # ys) = x @ sep @ join sep (y # ys)"

definition is_digit :: "char \<Rightarrow> bool" where
  "is_digit c = (c \<in> set ''0123456789'')"

text \<open>\<open>re.match(r'id\d+', s)\<close> as a truth value: the pattern is matched at the start of
  \<open>s\<close>, and what follows the first digit does not matter.\<close>

fun re_match_id_digits :: "string \<Rightarrow> bool" where
  "re_match_id_digits (i # d # c # rest) = (i = CHR ''i'' \<and> d = CHR ''d'' \<and> is_digit c)"
| "re_match_id_digits s = False"

subsection \<open>XMLFileTransformer\<close>

definition XML_NS :: string where
  "XML_NS = ''{http://www.w3.org/XML/1998/namespace}''"

definition id_attrib :: string where
  "id_attrib = XML_NS @ ''id''"

definition WARNING :: string where
  "WARNING = ''WARNING: This file is automatically generated. Do not edit it.''"

text \<open>The choice among the ids of one attribute value (the body of the \<open>if xml_id is not
  None\<close> branch).\<close>

definition choose_id :: "string \<Rightarrow> string" where
  "choose_id xml_id =
     (let id_list = split CHR '' '' xml_id in
      if length id_list > 1 \<and> re_match_id_digits (last id_list)
      then hd id_list
      else last id_list)"

text \<open>The body of the loop, for one item.\<close>

definition fix_item :: "xml \<Rightarrow> xml" where
  "fix_item item =
     (case get item id_attrib of
        None \<Rightarrow> item
      | Some xml_id \<Rightarrow> attrib_set item id_attrib (choose_id xml_id))"

text \<open>
  The loop \<open>for item in tree.iter()\<close>. It changes attribute values only, so the items it
  visits are the nodes of the tree it started from, each visited once, a node before its
  children.
\<close>

fun normalize_ids :: "xml \<Rightarrow> xml" where
  "normalize_ids (Element t a x ch ta) =
     (case fix_item (Element t a x ch ta) of
        Element t' a' x' ch' ta' \<Rightarrow> Element t' a' x' (map normalize_ids ch) ta'
      | other \<Rightarrow> other)"
| "normalize_ids (Comment c ta) = fix_item (Comment c ta)"
| "normalize_ids (PI p c ta) = fix_item (PI p c ta)"

text \<open>
  The check lxml makes of the local name when a tag is assigned (\<open>_tagValidOrRaise\<close>):
  an XML name without a colon. For ASCII this is the production of XML 1.0; a byte
  outside ASCII is taken as a name character.
\<close>

definition name_start_char :: "char \<Rightarrow> bool" where
  "name_start_char c =
     (c \<in> set ''ABCDEFGHIJKLMNOPQRSTUVWXYZabcdefghijklmnopqrstuvwxyz_'' \<or>
      128 \<le> (of_char c :: nat))"

definition name_char :: "char \<Rightarrow> bool" where
  "name_char c = (name_start_char c \<or> c \<in> set ''0123456789-.'')"

fun tag_name_valid :: "string \<Rightarrow> bool" where
  "tag_name_valid [] = False"
| "tag_name_valid (c # cs) = (name_start_char c \<and> list_all name_char cs)"

text \<open>
  \<open>_custom_transform\<close>. The argument is the root of the tree, \<open>None\<close> for a result tree
  without a root element. \<open>root.tag = ...\<close> raises \<open>AttributeError\<close> on \<open>None\<close> (and
  on a node that is no element, which \<open>getroot()\<close> never yields), and \<open>ValueError\<close>
  when lxml refuses the name.
\<close>

fun custom_transform :: "string \<Rightarrow> xml option \<Rightarrow> py_error + xml" where
  "custom_transform toplevel None = Inl AttributeError"
| "custom_transform toplevel (Some (Element t a x ch ta)) =
     (if tag_name_valid toplevel
      then Inr (normalize_ids
                  (Element (''{http://docbook.org/ns/docbook}'' @ toplevel) a x
                           (Comment WARNING None # ch) ta))
      else Inl ValueError)"
| "custom_transform toplevel (Some other) = Inl AttributeError"

text \<open>
  What the program takes from lxml and from its stylesheet \<^verbatim>\<open>resources/dn2osdbk.xsl\<close>,
  neither of them part of the source: \<open>etree.XML\<close> (parsing, which may raise),
  \<open>_xslt_transform\<close> (reading the stylesheet and applying it, which may raise, and the
  root of its result tree, \<open>None\<close> when the result has no root element) and
  \<open>etree.tostring\<close>. They are parameters of the model.
\<close>

record lxml =
  etree_XML :: "string \<Rightarrow> py_error + xml"
  xslt_transform :: "xml \<Rightarrow> py_error + xml option"
  etree_tostring :: "xml \<Rightarrow> string"

subsection \<open>The file system\<close>

text \<open>
  A path is identified by its spelling. An entry is a file with its content or a
  directory; \<open>entries\<close> lists them in the order in which the system enumerates them.
  \<open>trace\<close> is the history of the reads, writes and directory creations, the newest
  last. Opening a path for writing is taken to succeed unless the path is a directory.
\<close>

datatype entry = File string | Dir

datatype event = Read string | Write string | Mkdir string

record fs =
  entries :: "(string \<times> entry) list"
  trace :: "event list"

type_synonym 'a io = "(py_error + 'a) \<times> fs"

text \<open>\<open>open(path).read()\<close>\<close>

definition fs_read :: "string \<Rightarrow> fs \<Rightarrow> string io" where
  "fs_read path s =
     (case map_of (entries s) path of
        Some (File content) \<Rightarrow> (Inr content, s\<lparr>trace := trace s @ [Read path]\<rparr>)
      | Some Dir \<Rightarrow> (Inl IOError, s)
      | None \<Rightarrow> (Inl IOError, s))"

text \<open>\<open>open(path, 'w').write(content)\<close>\<close>

definition fs_write :: "string \<Rightarrow> string \<Rightarrow> fs \<Rightarrow> unit io" where
  "fs_write path content s =
     (case map_of (entries s) path of
        Some Dir \<Rightarrow> (Inl IOError, s)
      | other \<Rightarrow> (Inr (), s\<lparr>entries := AList.update path (File content) (entries s),
                              trace := trace s @ [Write path]\<rparr>))"

definition isdir :: "fs \<Rightarrow> string \<Rightarrow> bool" where
  "isdir s path = (map_of (entries s) path = Some Dir)"

text \<open>The directories above a path: \<open>a\<close> and \<open>a/b\<close> for \<open>a/b/c\<close>.\<close>

fun parent_dirs :: "string \<Rightarrow> string \<Rightarrow> string list" where
  "parent_dirs seen [] = []"
| "parent_dirs seen (c # cs) =
     (if c = CHR ''/'' \<and> seen \<noteq> [] \<and> last seen \<noteq> CHR ''/''
      then seen # parent_dirs (seen @ [c]) cs
      else parent_dirs (seen @ [c]) cs)"

text \<open>
  \<open>os.makedirs(path)\<close>: \<open>OSError\<close> when the path exists or a directory above it is
  a file; otherwise the missing directories above it are made, the outermost first, and
  then the path itself.
\<close>

definition makedirs :: "string \<Rightarrow> fs \<Rightarrow> unit io" where
  "makedirs path s =
     (if map_of (entries s) path \<noteq> None then (Inl OSError, s)
      else if list_ex (\<lambda>d. case map_of (entries s) d of Some (File c) \<Rightarrow> True | other \<Rightarrow> False)
                      (parent_dirs [] path)
      then (Inl OSError, s)
      else
        (let made = filter (\<lambda>d. map_of (entries s) d = None) (parent_dirs [] path) @ [path]
         in (Inr (), s\<lparr>entries := entries s @ map (\<lambda>d. (d, Dir)) made,
                        trace := trace s @ map Mkdir made\<rparr>)))"

definition startswith :: "string \<Rightarrow> string \<Rightarrow> bool" where
  "startswith s pre = (take (length pre) s = pre)"

definition endswith :: "string \<Rightarrow> string \<Rightarrow> bool" where
  "endswith s suf = (length suf \<le> length s \<and> drop (length s - length suf) s = suf)"

text \<open>\<open>os.path.join(a, b)\<close> and \<open>os.path.basename(p)\<close> (POSIX)\<close>

definition path_join :: "string \<Rightarrow> string \<Rightarrow> string" where
  "path_join a b =
     (if startswith b ''/'' then b
      else if a = [] \<or> endswith a ''/'' then a @ b
      else a @ ''/'' @ b)"

definition basename :: "string \<Rightarrow> string" where
  "basename p = last (split CHR ''/'' p)"

text \<open>
  \<open>glob.glob(os.path.join(source_dir, '*.xml'))\<close>: the entries of the directory whose
  name ends in \<open>.xml\<close> and does not start with a dot, in the order of the file system.
  The directory is taken to be spelled without glob metacharacters.
\<close>

definition fnmatch_xml :: "string \<Rightarrow> bool" where
  "fnmatch_xml name = (\<not> startswith name ''.'' \<and> endswith name ''.xml'')"

definition glob_xml :: "string \<Rightarrow> fs \<Rightarrow> string list" where
  "glob_xml source_dir s =
     (let pre = path_join source_dir [] in
      filter (\<lambda>p. startswith p pre \<and>
                  CHR ''/'' \<notin> set (drop (length pre) p) \<and>
                  fnmatch_xml (drop (length pre) p))
             (map fst (entries s)))"

subsection \<open>String formatting\<close>

text \<open>
  \<open>format % mapping\<close> with string values, as CPython scans it: literal characters are
  copied; after \<open>%\<close> comes \<open>%\<close> or a parenthesised key, which is looked up at once
  (\<open>KeyError\<close>), and then the conversion character. \<open>s\<close> writes the value; a
  character that is no conversion type, flag, width, precision or length modifier raises
  \<open>ValueError\<close> (unsupported format character), and so does a format that ends inside
  a directive. The templates of this program hold no flag, width, precision, length
  modifier or other conversion type; the model answers them with \<open>FormatNotModelled\<close>.
\<close>

datatype fmt_state = Literal | Percent | Key nat string | Conv string

definition prepend :: "string \<Rightarrow> py_error + string \<Rightarrow> py_error + string" where
  "prepend s r = (case r of Inl e \<Rightarrow> Inl e | Inr t \<Rightarrow> Inr (s @ t))"

definition other_directive_chars :: string where
  "other_directive_chars = ''#0- +123456789.*hlLdiouxXeEfFgGcra''"

fun py_format_from :: "fmt_state \<Rightarrow> string \<Rightarrow> (string \<times> string) list \<Rightarrow> py_error + string" where
  "py_format_from Literal [] d = Inr []"
| "py_format_from Percent [] d = Inl ValueError"
| "py_format_from (Key depth k) [] d = Inl ValueError"
| "py_format_from (Conv v) [] d = Inl ValueError"
| "py_format_from Literal (c # cs) d =
     (if c = CHR ''%'' then py_format_from Percent cs d
      else prepend [c] (py_format_from Literal cs d))"
| "py_format_from Percent (c # cs) d =
     (if c = CHR ''('' then py_format_from (Key 0 []) cs d
      else if c = CHR ''%'' then prepend ''%'' (py_format_from Literal cs d)
      else if c = CHR ''s'' \<or> c \<in> set other_directive_chars then Inl FormatNotModelled
      else Inl ValueError)"
| "py_format_from (Key depth k) (c # cs) d =
     (if c = CHR '')'' \<and> depth = 0 then
        (case map_of d k of
           None \<Rightarrow> Inl KeyError
         | Some v \<Rightarrow> py_format_from (Conv v) cs d)
      else if c = CHR '')'' then py_format_from (Key (depth - 1) (k @ [c])) cs d
      else if c = CHR ''('' then py_format_from (Key (depth + 1) (k @ [c])) cs d
      else py_format_from (Key depth (k @ [c])) cs d)"
| "py_format_from (Conv v) (c # cs) d =
     (if c = CHR ''s'' then prepend v (py_format_from Literal cs d)
      else if c = CHR ''%'' then prepend ''%'' (py_format_from Literal cs d)
      else if c \<in> set other_directive_chars then Inl FormatNotModelled
      else Inl ValueError)"

definition py_format :: "string \<Rightarrow> (string \<times> string) list \<Rightarrow> py_error + string" where
  "py_format fmt d = py_format_from Literal fmt d"

text \<open>\<open>s.lower()\<close> and \<open>s.replace(a, b)\<close> for single characters\<close>

definition lower_char :: "char \<Rightarrow> char" where
  "lower_char c =
     (case map_of (zip ''ABCDEFGHIJKLMNOPQRSTUVWXYZ'' ''abcdefghijklmnopqrstuvwxyz'') c of
        None \<Rightarrow> c
      | Some l \<Rightarrow> l)"

definition lower :: "string \<Rightarrow> string" where
  "lower s = map lower_char s"

definition replace :: "char \<Rightarrow> char \<Rightarrow> string \<Rightarrow> string" where
  "replace a b s = map (\<lambda>c. if c = a then b else c) s"

subsection \<open>XMLFileTransformer.transform\<close>

text \<open>
  \<open>transform\<close> of a file transformer made for \<open>source_file\<close> and \<open>toplevel\<close>
  (the constructor only stores the two, and a basename nothing reads).
\<close>

definition XMLFileTransformer_transform ::
    "lxml \<Rightarrow> string \<Rightarrow> string \<Rightarrow> fs \<Rightarrow> string io" where
  "XMLFileTransformer_transform lx source_file toplevel s =
     (case fs_read source_file s of
        (Inl e, s') \<Rightarrow> (Inl e, s')
      | (Inr source_xml, s') \<Rightarrow>
          (case etree_XML lx source_xml of
             Inl e \<Rightarrow> (Inl e, s')
           | Inr source_doc \<Rightarrow>
               (case xslt_transform lx source_doc of
                  Inl e \<Rightarrow> (Inl e, s')
                | Inr result_tree \<Rightarrow>
                    (case custom_transform toplevel result_tree of
                       Inl e \<Rightarrow> (Inl e, s')
                     | Inr result_tree' \<Rightarrow> (Inr (etree_tostring lx result_tree'), s')))))"

subsection \<open>The folder transformers\<close>

datatype cls = BaseFolderTransformer | BookTransformer | ChapterTransformer

fun file_toplevel :: "cls \<Rightarrow> string" where
  "file_toplevel BaseFolderTransformer = ''section''"
| "file_toplevel BookTransformer = ''chapter''"
| "file_toplevel ChapterTransformer = ''section''"

record transformer =
  klass :: cls
  source_dir :: string
  output_dir :: string
  index :: string
  includes' :: "string list"
  title :: "string option"

text \<open>\<open>src_xml.iter('reference')\<close>: the elements of that tag, in document order\<close>

fun has_tag :: "string \<Rightarrow> xml \<Rightarrow> bool" where
  "has_tag name (Element t a x ch ta) = (t = name)"
| "has_tag name other = False"

definition iter_tag :: "string \<Rightarrow> xml \<Rightarrow> xml list" where
  "iter_tag name doc = filter (has_tag name) (iter doc)"

text \<open>\<open>src_xml.find('section/title')\<close>: the first \<open>title\<close> child of a \<open>section\<close>
  child of the root, if any\<close>

fun child_nodes :: "xml \<Rightarrow> xml list" where
  "child_nodes (Element t a x ch ta) = ch"
| "child_nodes other = []"

definition find_section_title :: "xml \<Rightarrow> xml option" where
  "find_section_title doc =
     (case concat (map (\<lambda>sec. filter (has_tag ''title'') (child_nodes sec))
                       (filter (has_tag ''section'') (child_nodes doc))) of
        [] \<Rightarrow> None
      | el # rest \<Rightarrow> Some el)"

fun text_of :: "xml \<Rightarrow> string option" where
  "text_of (Element t a x ch ta) = x"
| "text_of (Comment c ta) = Some c"
| "text_of (PI p c ta) = Some c"

text \<open>The loop of \<open>parse_index\<close> over the references, \<open>incs\<close> being
  \<open>self.includes\<close>. \<open>'#' in None\<close> raises \<open>TypeError\<close>.\<close>

fun parse_references :: "string \<Rightarrow> xml list \<Rightarrow> string list \<Rightarrow> py_error + string list" where
  "parse_references ft [] incs = Inr incs"
| "parse_references ft (reference # rest) incs =
     (case get reference ''refuri'' of
        None \<Rightarrow> Inl TypeError
      | Some refuri \<Rightarrow>
          if CHR ''#'' \<in> set refuri then parse_references ft rest incs
          else parse_references ft rest (incs @ [ft @ ''_'' @ refuri @ ''.xml'']))"

definition parse_index :: "lxml \<Rightarrow> transformer \<Rightarrow> fs \<Rightarrow> transformer io" where
  "parse_index lx self s =
     (case fs_read (path_join (source_dir self) ''index.xml'') s of
        (Inl e, s') \<Rightarrow> (Inl e, s')
      | (Inr content, s') \<Rightarrow>
          (case etree_XML lx content of
             Inl e \<Rightarrow> (Inl e, s')
           | Inr src_xml \<Rightarrow>
               (case parse_references (file_toplevel (klass self))
                       (iter_tag ''reference'' src_xml) (includes' self) of
                  Inl e \<Rightarrow> (Inl e, s')
                | Inr incs \<Rightarrow>
                    (case find_section_title src_xml of
                       None \<Rightarrow> (Inl AttributeError, s')
                     | Some el \<Rightarrow>
                         (Inr (self\<lparr>includes' := incs, title := text_of el\<rparr>), s')))))"

text \<open>\<open>__init__\<close>, for the class \<open>k\<close>\<close>

definition folder_init :: "lxml \<Rightarrow> cls \<Rightarrow> string \<Rightarrow> string \<Rightarrow> fs \<Rightarrow> transformer io" where
  "folder_init lx k source output s =
     (case parse_index lx \<lparr>klass = k, source_dir = source, output_dir = output,
                            index = ''index.xml'', includes' = [], title = None\<rparr> s of
        (Inl e, s') \<Rightarrow> (Inl e, s')
      | (Inr self, s') \<Rightarrow>
          if \<not> isdir s' output then
            (case makedirs output s' of
               (Inl e, s'') \<Rightarrow> (Inl e, s'')
             | (Inr u, s'') \<Rightarrow> (Inr self, s''))
          else (Inr self, s'))"

definition BOOK_TEMPLATE :: string where
  \<open>BOOK_TEMPLATE =
     ''<?xml version="1.0" encoding="UTF-8"?>\<newline>'' @
     ''<!DOCTYPE book [\<newline>'' @
     '']>\<newline>'' @
     ''<book xmlns="http://docbook.org/ns/docbook"\<newline>'' @
     ''  xmlns:xi="http://www.w3.org/2001/XInclude"\<newline>'' @
     ''  xmlns:xlink="http://www.w3.org/1999/xlink"\<newline>'' @
     ''  version="5.0"\<newline>'' @
     ''  xml:id="%(xml_id)s">\<newline>'' @
     ''\<newline>'' @
     ''    <!-- WARNING: This file is automatically generated. Do not edit it. -->\<newline>'' @
     ''\<newline>'' @
     ''    <title>%(title)s</title>\<newline>'' @
     ''    %(includes)s\<newline>'' @
     ''</book>\<newline>''\<close>

definition CHAPTER_TEMPLATE :: string where
  \<open>CHAPTER_TEMPLATE =
     ''<?xml version="1.0" encoding="UTF-8"?>\<newline>'' @
     ''<chapter xmlns="http://docbook.org/ns/docbook"\<newline>'' @
     ''  xmlns:xi="http://www.w3.org/2001/XInclude"\<newline>'' @
     ''  xmlns:xlink="http://www.w3.org/1999/xlink"\<newline>'' @
     ''  version="5.0"\<newline>'' @
     ''  xml:id="%(xml_id)s">\<newline>'' @
     ''\<newline>'' @
     ''    <!-- WARNING: This file is automatically generated. Do not edit it. -->\<newline>'' @
     ''\<newline>'' @
     ''    <title>%(title)</title>\<newline>'' @
     ''    %(includes)s\<newline>'' @
     ''</chapter>\<newline>''\<close>

definition xi_include :: "string \<Rightarrow> string" where
  \<open>xi_include i = ''<xi:include href="'' @ i @ ''"/>''\<close>

text \<open>
  \<open>write_index\<close>. The base class raises \<open>NotImplementedError\<close>; the two subclasses
  differ in their template. \<open>self.title.lower()\<close> raises \<open>AttributeError\<close> when the
  title element had no text.
\<close>

definition write_index_with :: "string \<Rightarrow> transformer \<Rightarrow> fs \<Rightarrow> unit io" where
  "write_index_with template self s =
     (let output_file = path_join (output_dir self) ''index.xml'' in
      case title self of
        None \<Rightarrow> (Inl AttributeError, s)
      | Some title_text \<Rightarrow>
          (let xml_id = replace CHR '' '' CHR ''-'' (lower title_text);
               incs = join ''\<newline>    '' (map xi_include (includes' self))
           in case py_format template
                     [(''xml_id'', xml_id), (''title'', title_text), (''includes'', incs)] of
                Inl e \<Rightarrow> (Inl e, s)
              | Inr output \<Rightarrow> fs_write output_file output s))"

fun write_index :: "transformer \<Rightarrow> fs \<Rightarrow> unit io" where
  "write_index self s =
     (case klass self of
        BaseFolderTransformer \<Rightarrow> (Inl NotImplementedError, s)
      | BookTransformer \<Rightarrow> write_index_with BOOK_TEMPLATE self s
      | ChapterTransformer \<Rightarrow> write_index_with CHAPTER_TEMPLATE self s)"

text \<open>The loop of \<open>transform\<close> over the files \<open>glob\<close> returned.\<close>

fun transform_files :: "lxml \<Rightarrow> transformer \<Rightarrow> string list \<Rightarrow> fs \<Rightarrow> unit io" where
  "transform_files lx self [] s = (Inr (), s)"
| "transform_files lx self (src # rest) s =
     (if endswith src ''/index.xml'' then transform_files lx self rest s
      else
        (let output_file = path_join (output_dir self)
                             (file_toplevel (klass self) @ ''_'' @ basename src)
         in case XMLFileTransformer_transform lx src (file_toplevel (klass self)) s of
              (Inl e, s') \<Rightarrow> (Inl e, s')
            | (Inr xml_text, s') \<Rightarrow>
                (case fs_write output_file xml_text s' of
                   (Inl e, s'') \<Rightarrow> (Inl e, s'')
                 | (Inr u, s'') \<Rightarrow> transform_files lx self rest s'')))"

definition folder_transform :: "lxml \<Rightarrow> transformer \<Rightarrow> fs \<Rightarrow> unit io" where
  "folder_transform lx self s =
     (case transform_files lx self (glob_xml (source_dir self) s) s of
        (Inl e, s') \<Rightarrow> (Inl e, s')
      | (Inr u, s') \<Rightarrow> write_index self s')"

subsection \<open>main\<close>

definition TRANSFORMERS :: "(string \<times> cls) list" where
  "TRANSFORMERS = [(''chapter'', ChapterTransformer), (''book'', BookTransformer)]"

text \<open>
  \<open>main\<close> after \<open>parse_args\<close>, which has accepted \<open>toplevel\<close> only if it is one of the
  two choices (the lookup in \<open>TRANSFORMERS\<close> raises \<open>KeyError\<close> on any other). The
  result \<open>Inr ()\<close> is the exit of the process through \<open>sys.exit\<close>.
\<close>

definition main :: "lxml \<Rightarrow> string \<Rightarrow> string \<Rightarrow> string \<Rightarrow> fs \<Rightarrow> unit io" where
  "main lx source output toplevel s =
     (if isdir s source then
        (case map_of TRANSFORMERS toplevel of
           None \<Rightarrow> (Inl KeyError, s)
         | Some k \<Rightarrow>
             (case folder_init lx k source output s of
                (Inl e, s') \<Rightarrow> (Inl e, s')
              | (Inr transformer, s') \<Rightarrow> folder_transform lx transformer s'))
      else
        (case XMLFileTransformer_transform lx source toplevel s of
           (Inl e, s') \<Rightarrow> (Inl e, s')
         | (Inr xml_text, s') \<Rightarrow> fs_write output xml_text s'))"

subsection \<open>Notions used in the statements\<close>

fun is_comment :: "xml \<Rightarrow> bool" where
  "is_comment (Comment c ta) = True"
| "is_comment other = False"

text \<open>A node without its children: its own tag, attributes, text and tail.\<close>

fun shallow :: "xml \<Rightarrow> xml" where
  "shallow (Element t a x ch ta) = Element t a x [] ta"
| "shallow other = other"

subsection \<open>A sample directory\<close>

text \<open>
  Concrete inputs, on which the theorems below are instantiated: trees as docutils and the
  stylesheet produce them, a parser that knows six texts, a stylesheet that returns the
  document it is given, and an empty result for a document without children, a serializer
  that prints the root tag, and a source directory \<open>src\<close> with an index and two pages.
\<close>

definition demo_ids :: xml where
  "demo_ids =
     Element ''section'' [(id_attrib, ''intro id123''), (''version'', ''5.0'')] None
       [Element ''para'' [(id_attrib, ''foo bar'')] (Some ''text'') [] None,
        Element ''para'' [(id_attrib, ''solo'')] None [] None,
        Element ''para'' [(''role'', ''a b'')] None [] None]
       None"

definition demo_index :: xml where
  "demo_index =
     Element ''document'' [(''source'', ''index.rst'')] None
       [Element ''section'' [(''ids'', ''release-notes'')] None
          [Element ''title'' [] (Some ''Release Notes'') [] None,
           Element ''bullet_list'' [] None
             [Element ''reference'' [(''refuri'', ''foo'')] (Some ''Foo'') [] None,
              Element ''reference'' [(''refuri'', ''bar'')] (Some ''Bar'') [] None]
             None]
          None]
       None"

definition demo_page :: xml where
  "demo_page =
     Element ''{http://docbook.org/ns/docbook}section'' [(id_attrib, ''foo id1'')] None
       [Element ''{http://docbook.org/ns/docbook}title'' [] (Some ''Foo'') [] None,
        Comment ''generated by docutils'' None]
       None"

definition demo_untitled :: xml where
  "demo_untitled =
     Element ''document'' [] None
       [Element ''paragraph'' [] None
          [Element ''reference'' [(''refuri'', ''foo'')] (Some ''Foo'') [] None] None]
       None"

definition demo_bad_reference :: xml where
  "demo_bad_reference =
     Element ''document'' [] None
       [Element ''section'' [] None
          [Element ''title'' [] (Some ''Release Notes'') [] None,
           Element ''reference'' [(''refuri'', ''foo'')] (Some ''Foo'') [] None,
           Element ''reference'' [(''refid'', ''bar'')] (Some ''Bar'') [] None]
          None]
       None"

definition demo_anchored :: xml where
  "demo_anchored =
     Element ''document'' [] None
       [Element ''section'' [] None
          [Element ''title'' [] (Some ''User Guide'') [] None,
           Element ''reference'' [(''refuri'', ''foo'')] (Some ''Foo'') [] None,
           Element ''reference'' [(''refuri'', ''foo#details'')] (Some ''Details'') [] None,
           Element ''reference'' [(''refuri'', ''bar'')] (Some ''Bar'') [] None]
          None]
       None"

definition demo_empty :: xml where
  "demo_empty = Element ''document'' [] None [] None"

definition demo_lxml :: lxml where
  "demo_lxml =
     \<lparr>etree_XML = (\<lambda>s. case map_of [(''<index/>'', demo_index), (''<page/>'', demo_page),
                                     (''<untitled/>'', demo_untitled),
                                     (''<bad-reference/>'', demo_bad_reference),
                                     (''<anchored/>'', demo_anchored),
                                     (''<document/>'', demo_empty)] s of
                         None \<Rightarrow> Inl XMLSyntaxError
                       | Some doc \<Rightarrow> Inr doc),
      xslt_transform = (\<lambda>doc. if child_nodes doc = [] then Inr None else Inr (Some doc)),
      etree_tostring = (\<lambda>t. ''<'' @ tag t @ ''/>'')\<rparr>"

definition demo_fs :: "string \<Rightarrow> string \<Rightarrow> fs" where
  "demo_fs index_text bar_text =
     \<lparr>entries = [(''src'', Dir), (''src/foo.xml'', File ''<page/>''),
                 (''src/index.xml'', File index_text), (''src/bar.xml'', File bar_text)],
      trace = []\<rparr>"

subsection \<open>Identifier normalization\<close>

lemma split_not_Nil: "split sep s \<noteq> []"
  by (induction s) (auto split: list.splits)

lemma split_no_sep: "w \<in> set (split sep s) \<Longrightarrow> sep \<notin> set w"
  by (induction s arbitrary: w) (auto split: if_splits list.splits)

lemma split_without_sep: "sep \<notin> set s \<Longrightarrow> split sep s = [s]"
  by (induction s) (auto split: list.splits)

lemma choose_id_in_split: "choose_id v \<in> set (split CHR '' '' v)"
  using split_not_Nil [of "CHR '' ''" v]
  by (auto simp: choose_id_def Let_def)

lemma choose_id_no_space: "CHR '' '' \<notin> set (choose_id v)"
  using choose_id_in_split split_no_sep by blast

lemma choose_id_single: "CHR '' '' \<notin> set v \<Longrightarrow> choose_id v = v"
  by (simp add: choose_id_def split_without_sep)

lemma choose_id_idem: "choose_id (choose_id v) = choose_id v"
  by (simp add: choose_id_single choose_id_no_space)

lemma normalize_ids_Element:
  "normalize_ids (Element t a x ch ta) =
     Element t (case map_of a id_attrib of None \<Rightarrow> a
                | Some v \<Rightarrow> AList.update id_attrib (choose_id v) a)
             x (map normalize_ids ch) ta"
  by (simp add: fix_item_def split: option.splits)

declare normalize_ids.simps(1) [simp del]

text \<open>
  C8. Identifier normalization is idempotent: running the pass on a tree it has already
  normalized changes nothing, so every attribute value is the one the first pass chose.
\<close>

theorem normalize_ids_idempotent: "normalize_ids (normalize_ids t) = normalize_ids t"
proof (induction t)
  case (Element t a x ch ta)
  have kids: "map (normalize_ids \<circ> normalize_ids) ch = map normalize_ids ch"
    using Element.IH by (simp cong: map_cong)
  show ?case
  proof (cases "map_of a id_attrib")
    case None
    then show ?thesis
      using kids by (simp add: normalize_ids_Element)
  next
    case (Some v)
    then show ?thesis
      using kids
      by (simp add: normalize_ids_Element update_conv' choose_id_idem)
  qed
next
  case (Comment c ta)
  show ?case by (simp add: fix_item_def)
next
  case (PI p c ta)
  show ?case by (simp add: fix_item_def)
qed

lemma split_append_sep:
  "sep \<notin> set w \<Longrightarrow> split sep (w @ sep # rest) = w # split sep rest"
  by (induction w) (auto split: list.splits)

lemma split_join:
  "toks \<noteq> [] \<Longrightarrow> \<forall>w\<in>set toks. sep \<notin> set w \<Longrightarrow> split sep (join [sep] toks) = toks"
proof (induction "[sep]" toks rule: join.induct)
  case 1
  then show ?case by simp
next
  case (2 x)
  then show ?case by (simp add: split_without_sep)
next
  case (3 x y ys)
  then show ?case by (simp add: split_append_sep)
qed

lemma choose_id_join:
  assumes "toks \<noteq> []" and "\<forall>w\<in>set toks. CHR '' '' \<notin> set w"
  shows "choose_id (join '' '' toks) =
           (if length toks = 1 then hd toks
            else if re_match_id_digits (last toks) then hd toks else last toks)"
proof -
  have "split CHR '' '' (join '' '' toks) = toks"
    using split_join [OF assms] by simp
  moreover have "length toks = 1 \<Longrightarrow> hd toks = last toks"
    by (cases toks) auto
  moreover have "length toks \<noteq> 1 \<Longrightarrow> 1 < length toks"
    using assms(1) by (cases toks) auto
  ultimately show ?thesis
    by (auto simp: choose_id_def)
qed

lemma iter_normalize_shallow:
  "map shallow (iter (normalize_ids t)) = map (fix_item \<circ> shallow) (iter t)"
proof (induction t)
  case (Element t a x ch ta)
  have "concat (map (map shallow \<circ> (iter \<circ> normalize_ids)) ch) =
        concat (map (map (fix_item \<circ> shallow) \<circ> iter) ch)"
    using Element.IH by (auto intro!: arg_cong [where f = concat])
  then show ?case
    by (simp add: normalize_ids_Element map_concat comp_def fix_item_def split: option.splits)
next
  case (Comment c ta)
  show ?case by (simp add: fix_item_def)
next
  case (PI p c ta)
  show ?case by (simp add: fix_item_def)
qed

lemma get_shallow: "get (shallow n) k = get n k"
  by (cases n) simp_all

text \<open>
  C2, as the code has it. The ids of an attribute value are separated by single space
  characters, and the pattern is matched at the start of the last id, as \<open>re.match\<close>
  does. For every node of the tree, the root included, in document order: a node without
  the attribute keeps its tag, attributes, text and tail; and when the value is a list of
  one or more nonempty ids with a single space between them, the attribute becomes one of
  them, the only one, or else the first when the last matches the pattern, or else the
  last, and nothing else of the node changes.
\<close>

theorem normalize_ids_space_separated:
  "length (iter (normalize_ids t)) = length (iter t) \<and>
   (\<forall>i<length (iter t).
      (get (iter t ! i) id_attrib = None \<longrightarrow>
         shallow (iter (normalize_ids t) ! i) = shallow (iter t ! i)) \<and>
      (\<forall>toks. toks \<noteq> [] \<and> (\<forall>w\<in>set toks. w \<noteq> [] \<and> CHR '' '' \<notin> set w) \<and>
              get (iter t ! i) id_attrib = Some (join '' '' toks) \<longrightarrow>
         shallow (iter (normalize_ids t) ! i) =
           attrib_set (shallow (iter t ! i)) id_attrib
             (if length toks = 1 then hd toks
              else if re_match_id_digits (last toks) then hd toks else last toks)))"
proof -
  have len: "length (iter (normalize_ids t)) = length (iter t)"
    using iter_normalize_shallow [of t] by (metis length_map)
  have nth: "shallow (iter (normalize_ids t) ! i) = fix_item (shallow (iter t ! i))"
    if "i < length (iter t)" for i
  proof -
    have "shallow (iter (normalize_ids t) ! i) = map shallow (iter (normalize_ids t)) ! i"
      using that len by simp
    also have "\<dots> = map (fix_item \<circ> shallow) (iter t) ! i"
      by (simp only: iter_normalize_shallow)
    also have "\<dots> = fix_item (shallow (iter t ! i))"
      using that by simp
    finally show ?thesis .
  qed
  have choice: "choose_id (join '' '' toks) =
           (if length toks = 1 then hd toks
            else if re_match_id_digits (last toks) then hd toks else last toks)"
    if "toks \<noteq> []" and "\<forall>w\<in>set toks. w \<noteq> [] \<and> CHR '' '' \<notin> set w" for toks
    using that by (intro choose_id_join) auto
  show ?thesis
    using len
    by (auto simp: nth fix_item_def get_shallow choice)
qed

text \<open>
  A tab does not separate ids: two tokens with a tab between them are one id for
  \<open>split(' ')\<close>, and the value is left as it is, where it would become the first
  token were any whitespace a separator. And a last id that goes on after its digits
  still matches: the first id is taken, where the last would be were the pattern to
  cover the whole id.
\<close>

theorem normalize_ids_tab_counterexample:
  "get (normalize_ids (Element ''section''
          [(id_attrib, join [CHR 0x09] [''intro'', ''id123''])] None [] None)) id_attrib =
     Some (join [CHR 0x09] [''intro'', ''id123'']) \<and>
   join [CHR 0x09] [''intro'', ''id123''] \<noteq> ''intro'' \<and>
   get (normalize_ids (Element ''section''
          [(id_attrib, join '' '' [''intro'', ''id123x''])] None [] None)) id_attrib =
     Some ''intro''"
  by (simp add: normalize_ids_Element id_attrib_def XML_NS_def choose_id_def is_digit_def)

theorem normalize_ids_space_separated_witness:
  "length (iter (normalize_ids demo_ids)) = 4 \<and>
   shallow (iter (normalize_ids demo_ids) ! 0) =
     Element ''section'' [(id_attrib, ''intro''), (''version'', ''5.0'')] None [] None \<and>
   shallow (iter (normalize_ids demo_ids) ! 1) =
     Element ''para'' [(id_attrib, ''bar'')] (Some ''text'') [] None \<and>
   shallow (iter (normalize_ids demo_ids) ! 2) =
     Element ''para'' [(id_attrib, ''solo'')] None [] None \<and>
   shallow (iter (normalize_ids demo_ids) ! 3) =
     Element ''para'' [(''role'', ''a b'')] None [] None"
proof -
  note T = normalize_ids_space_separated [of demo_ids]
  have l: "length (iter demo_ids) = 4"
    by (simp add: demo_ids_def)
  have n0: "iter demo_ids ! 0 = demo_ids"
    by (simp add: demo_ids_def)
  have n1: "iter demo_ids ! Suc 0 = Element ''para'' [(id_attrib, ''foo bar'')] (Some ''text'') [] None"
    by (simp add: demo_ids_def)
  have n2: "iter demo_ids ! 2 = Element ''para'' [(id_attrib, ''solo'')] None [] None"
    by (simp add: demo_ids_def)
  have n3: "iter demo_ids ! 3 = Element ''para'' [(''role'', ''a b'')] None [] None"
    by (simp add: demo_ids_def)
  have a: "length (iter (normalize_ids demo_ids)) = 4"
    using T l by simp
  have b: "shallow (iter (normalize_ids demo_ids) ! 0) =
     Element ''section'' [(id_attrib, ''intro''), (''version'', ''5.0'')] None [] None"
    using T [THEN conjunct2, rule_format, of 0, THEN conjunct2, rule_format, of "[''intro'', ''id123'']"]
    by (simp add: l n0 demo_ids_def is_digit_def)
  have c: "shallow (iter (normalize_ids demo_ids) ! 1) =
     Element ''para'' [(id_attrib, ''bar'')] (Some ''text'') [] None"
    using T [THEN conjunct2, rule_format, of 1, THEN conjunct2, rule_format, of "[''foo'', ''bar'']"]
    by (simp add: l n1 is_digit_def)
  have d: "shallow (iter (normalize_ids demo_ids) ! 2) =
     Element ''para'' [(id_attrib, ''solo'')] None [] None"
    using T [THEN conjunct2, rule_format, of 2, THEN conjunct2, rule_format, of "[''solo'']"]
    by (simp add: l n2)
  have e: "shallow (iter (normalize_ids demo_ids) ! 3) =
     Element ''para'' [(''role'', ''a b'')] None [] None"
    using T [THEN conjunct2, rule_format, of 3, THEN conjunct1]
    by (simp add: l n3 id_attrib_def XML_NS_def)
  from a b c d e show ?thesis by simp
qed

subsection \<open>The root of a converted file\<close>

lemma valid_toplevel [simp]:
  "tag_name_valid ''book''" "tag_name_valid ''chapter''" "tag_name_valid ''section''"
  by (simp_all add: name_start_char_def name_char_def)

declare tag_name_valid.simps [simp del]

lemma valid_file_toplevel [simp]: "tag_name_valid (file_toplevel k)"
  by (cases k) simp_all

lemma iter_normalize_comments:
  "filter is_comment (iter (normalize_ids t)) = filter is_comment (iter t)"
proof (induction t)
  case (Element t a x ch ta)
  have "concat (map (filter is_comment \<circ> (iter \<circ> normalize_ids)) ch) =
        concat (map (filter is_comment \<circ> iter) ch)"
    using Element.IH by (auto intro!: arg_cong [where f = concat])
  then show ?case
    by (simp add: normalize_ids_Element filter_concat map_concat comp_def)
next
  case (Comment c ta)
  show ?case by (simp add: fix_item_def)
next
  case (PI p c ta)
  show ?case by (simp add: fix_item_def)
qed

text \<open>
  C7, with the condition the code needs. When the source file is read and parsed and the
  stylesheet yields a tree with a root element, the conversion to \<open>book\<close>,
  \<open>chapter\<close> or \<open>section\<close> serializes a tree whose root has the requested tag in
  the DocBook namespace and the warning comment as its first child, before the
  (normalized) children the stylesheet produced; the comments of the whole tree are that
  one and those of the stylesheet's result, so no second warning is inserted.
\<close>

theorem transform_root_and_warning:
  assumes "fs_read source_file s = (Inr source_xml, s')"
      and "etree_XML lx source_xml = Inr doc"
      and "xslt_transform lx doc = Inr (Some (Element t a x ch ta))"
      and "toplevel \<in> {''book'', ''chapter'', ''section''}"
  shows "\<exists>a'. XMLFileTransformer_transform lx source_file toplevel s =
                (Inr (etree_tostring lx
                        (Element (''{http://docbook.org/ns/docbook}'' @ toplevel) a' x
                                 (Comment WARNING None # map normalize_ids ch) ta)), s') \<and>
              filter is_comment
                (iter (Element (''{http://docbook.org/ns/docbook}'' @ toplevel) a' x
                               (Comment WARNING None # map normalize_ids ch) ta)) =
                Comment WARNING None # filter is_comment (iter (Element t a x ch ta))"
proof -
  let ?root = "Element (''{http://docbook.org/ns/docbook}'' @ toplevel) a x
                 (Comment WARNING None # ch) ta"
  have valid: "tag_name_valid toplevel"
    using assms(4) by auto
  obtain a' where r: "normalize_ids ?root =
      Element (''{http://docbook.org/ns/docbook}'' @ toplevel) a' x
              (Comment WARNING None # map normalize_ids ch) ta"
    by (simp add: normalize_ids_Element fix_item_def)
  have "XMLFileTransformer_transform lx source_file toplevel s =
          (Inr (etree_tostring lx (normalize_ids ?root)), s')"
    using assms(1,2,3) valid by (simp add: XMLFileTransformer_transform_def)
  moreover have "filter is_comment (iter (normalize_ids ?root)) =
               Comment WARNING None # filter is_comment (iter (Element t a x ch ta))"
    by (simp add: iter_normalize_comments)
  ultimately show ?thesis
    unfolding r by blast
qed

text \<open>
  A well-formed file may leave the stylesheet with a result that has no root element.
  Then \<open>getroot()\<close> is \<open>None\<close>, the assignment of the tag raises \<open>AttributeError\<close>
  and nothing is serialized: here for the document without children.
\<close>

theorem transform_without_root_counterexample:
  "etree_XML demo_lxml ''<document/>'' = Inr demo_empty \<and>
   xslt_transform demo_lxml demo_empty = Inr None \<and>
   XMLFileTransformer_transform demo_lxml ''src/bar.xml'' ''chapter''
     (demo_fs ''<index/>'' ''<document/>'') =
     (Inl AttributeError, (demo_fs ''<index/>'' ''<document/>'')\<lparr>trace := [Read ''src/bar.xml'']\<rparr>)"
  by (simp add: XMLFileTransformer_transform_def fs_read_def demo_fs_def demo_lxml_def
        demo_empty_def)

theorem transform_root_and_warning_witness:
  "\<exists>a'. XMLFileTransformer_transform demo_lxml ''src/foo.xml'' ''chapter''
            (demo_fs ''<index/>'' ''<page/>'') =
          (Inr (etree_tostring demo_lxml
                  (Element ''{http://docbook.org/ns/docbook}chapter'' a' None
                     [Comment WARNING None,
                      Element ''{http://docbook.org/ns/docbook}title'' [] (Some ''Foo'') [] None,
                      Comment ''generated by docutils'' None] None)),
           (demo_fs ''<index/>'' ''<page/>'')\<lparr>trace := [Read ''src/foo.xml'']\<rparr>) \<and>
        filter is_comment
          (iter (Element ''{http://docbook.org/ns/docbook}chapter'' a' None
                   [Comment WARNING None,
                    Element ''{http://docbook.org/ns/docbook}title'' [] (Some ''Foo'') [] None,
                    Comment ''generated by docutils'' None] None)) =
          [Comment WARNING None, Comment ''generated by docutils'' None]"
proof -
  have rd: "fs_read ''src/foo.xml'' (demo_fs ''<index/>'' ''<page/>'') =
              (Inr ''<page/>'', (demo_fs ''<index/>'' ''<page/>'')\<lparr>trace := [Read ''src/foo.xml'']\<rparr>)"
    by (simp add: fs_read_def demo_fs_def)
  have px: "etree_XML demo_lxml ''<page/>'' = Inr demo_page"
    by (simp add: demo_lxml_def)
  have xs: "xslt_transform demo_lxml demo_page =
              Inr (Some (Element ''{http://docbook.org/ns/docbook}section''
                           [(id_attrib, ''foo id1'')] None
                           [Element ''{http://docbook.org/ns/docbook}title'' [] (Some ''Foo'') [] None,
                            Comment ''generated by docutils'' None] None))"
    by (simp add: demo_lxml_def demo_page_def)
  have tp: "''chapter'' \<in> {''book'', ''chapter'', ''section''}"
    by simp
  from transform_root_and_warning [OF rd px xs tp]
  show ?thesis by (simp add: normalize_ids_Element fix_item_def)
qed

subsection \<open>Parsing the index\<close>

lemma parse_references_missing:
  "\<exists>r\<in>set refs. get r ''refuri'' = None \<Longrightarrow> parse_references ft refs incs = Inl TypeError"
  by (induction refs arbitrary: incs) (auto split: option.splits)

lemma parse_references_result:
  "\<forall>r\<in>set refs. get r ''refuri'' \<noteq> None \<Longrightarrow>
   parse_references ft refs incs =
     Inr (incs @ List.map_filter
            (\<lambda>r. case get r ''refuri'' of
                   None \<Rightarrow> None
                 | Some u \<Rightarrow> if CHR ''#'' \<in> set u then None else Some (ft @ ''_'' @ u @ ''.xml''))
            refs)"
  by (induction refs arbitrary: incs) (auto split: option.splits)

lemma fs_read_file:
  "map_of (entries s) p = Some (File c) \<Longrightarrow>
   fs_read p s = (Inr c, s\<lparr>trace := trace s @ [Read p]\<rparr>)"
  by (simp add: fs_read_def)

lemma parse_index_no_title:
  assumes "map_of (entries s) (path_join (source_dir self) ''index.xml'') = Some (File content)"
      and "etree_XML lx content = Inr doc"
      and "find_section_title doc = None"
  shows "parse_index lx self s =
           (Inl (if \<exists>r\<in>set (iter_tag ''reference'' doc). get r ''refuri'' = None
                 then TypeError else AttributeError),
            s\<lparr>trace := trace s @ [Read (path_join (source_dir self) ''index.xml'')]\<rparr>)"
proof (cases "\<exists>r\<in>set (iter_tag ''reference'' doc). get r ''refuri'' = None")
  case True
  then show ?thesis
    using assms
    by (simp add: parse_index_def fs_read_file parse_references_missing)
next
  case False
  then have "\<forall>r\<in>set (iter_tag ''reference'' doc). get r ''refuri'' \<noteq> None"
    by simp
  then show ?thesis
    using assms False
    by (simp add: parse_index_def fs_read_file parse_references_result)
qed

text \<open>
  C9. When the index of the source directory has no \<open>section/title\<close> element, the
  constructor of a folder transformer raises inside \<open>parse_index\<close>, and so does
  \<open>main\<close> in directory mode: the file system is left with the entries it had (no output
  directory, no file written) and the reading of the index is the only event.
\<close>

theorem folder_init_no_title:
  assumes "map_of (entries s) (path_join source ''index.xml'') = Some (File content)"
      and "etree_XML lx content = Inr doc"
      and "find_section_title doc = None"
      and "isdir s source"
      and "map_of TRANSFORMERS toplevel = Some k"
  shows "\<exists>e. folder_init lx k source output s =
               (Inl e, s\<lparr>trace := trace s @ [Read (path_join source ''index.xml'')]\<rparr>) \<and>
             main lx source output toplevel s =
               (Inl e, s\<lparr>trace := trace s @ [Read (path_join source ''index.xml'')]\<rparr>)"
proof -
  let ?self = "\<lparr>klass = k, source_dir = source, output_dir = output,
                 index = ''index.xml'', includes' = [], title = None\<rparr>"
  obtain e where p: "parse_index lx ?self s =
             (Inl e, s\<lparr>trace := trace s @ [Read (path_join source ''index.xml'')]\<rparr>)"
    using parse_index_no_title [of s ?self content lx doc] assms by simp
  have i: "folder_init lx k source output s =
             (Inl e, s\<lparr>trace := trace s @ [Read (path_join source ''index.xml'')]\<rparr>)"
    by (simp add: folder_init_def p)
  have "main lx source output toplevel s =
            (Inl e, s\<lparr>trace := trace s @ [Read (path_join source ''index.xml'')]\<rparr>)"
    using assms(4,5) by (simp add: main_def i)
  with i show ?thesis by blast
qed

theorem folder_init_no_title_witness:
  "\<exists>e. folder_init demo_lxml BookTransformer ''src'' ''out'' (demo_fs ''<untitled/>'' ''<page/>'') =
          (Inl e, (demo_fs ''<untitled/>'' ''<page/>'')\<lparr>trace := [Read ''src/index.xml'']\<rparr>) \<and>
        main demo_lxml ''src'' ''out'' ''book'' (demo_fs ''<untitled/>'' ''<page/>'') =
          (Inl e, (demo_fs ''<untitled/>'' ''<page/>'')\<lparr>trace := [Read ''src/index.xml'']\<rparr>)"
  using folder_init_no_title [of "demo_fs ''<untitled/>'' ''<page/>''" "''src''" "''<untitled/>''" demo_lxml
      demo_untitled "''book''" BookTransformer "''out''"]
  by (simp add: demo_fs_def demo_lxml_def demo_untitled_def path_join_def startswith_def
      endswith_def find_section_title_def isdir_def TRANSFORMERS_def)

text \<open>
  C10. Once the index is read and parsed, \<open>parse_index\<close> raises \<open>TypeError\<close> exactly
  when some \<open>reference\<close> element of the document has no \<open>refuri\<close> attribute: such a
  document always makes it raise, and it returns only if every reference has one.
\<close>

theorem parse_index_missing_refuri:
  assumes "map_of (entries s) (path_join (source_dir self) ''index.xml'') = Some (File content)"
      and "etree_XML lx content = Inr doc"
  shows "fst (parse_index lx self s) = Inl TypeError \<longleftrightarrow>
         (\<exists>r\<in>set (iter_tag ''reference'' doc). get r ''refuri'' = None)"
proof (cases "\<exists>r\<in>set (iter_tag ''reference'' doc). get r ''refuri'' = None")
  case True
  then show ?thesis
    using assms by (simp add: parse_index_def fs_read_file parse_references_missing)
next
  case False
  then have "\<forall>r\<in>set (iter_tag ''reference'' doc). get r ''refuri'' \<noteq> None"
    by simp
  then show ?thesis
    using assms False
    by (simp add: parse_index_def fs_read_file parse_references_result split: option.splits)
qed

theorem parse_index_missing_refuri_witness:
  "fst (parse_index demo_lxml
          \<lparr>klass = ChapterTransformer, source_dir = ''src'', output_dir = ''out'',
           index = ''index.xml'', includes' = [], title = None\<rparr>
          (demo_fs ''<bad-reference/>'' ''<page/>'')) = Inl TypeError"
  using parse_index_missing_refuri [of "demo_fs ''<bad-reference/>'' ''<page/>''"
      "\<lparr>klass = ChapterTransformer, source_dir = ''src'', output_dir = ''out'',
           index = ''index.xml'', includes' = [], title = None\<rparr>" "''<bad-reference/>''"
      demo_lxml demo_bad_reference]
  by (simp add: demo_fs_def demo_lxml_def demo_bad_reference_def path_join_def startswith_def
      endswith_def iter_tag_def)

subsection \<open>Writing the index\<close>

lemma chapter_format_fails:
  "py_format CHAPTER_TEMPLATE [(''xml_id'', x), (''title'', t), (''includes'', i)] =
     Inl ValueError"
  by (simp add: py_format_def CHAPTER_TEMPLATE_def prepend_def other_directive_chars_def)

lemma book_format:
  \<open>py_format BOOK_TEMPLATE [(''xml_id'', x), (''title'', t), (''includes'', i)] =
     Inr (''<?xml version="1.0" encoding="UTF-8"?>\<newline>'' @
          ''<!DOCTYPE book [\<newline>'' @
          '']>\<newline>'' @
          ''<book xmlns="http://docbook.org/ns/docbook"\<newline>'' @
          ''  xmlns:xi="http://www.w3.org/2001/XInclude"\<newline>'' @
          ''  xmlns:xlink="http://www.w3.org/1999/xlink"\<newline>'' @
          ''  version="5.0"\<newline>'' @
          ''  xml:id="'' @ x @ ''">\<newline>'' @
          ''\<newline>'' @
          ''    <!-- WARNING: This file is automatically generated. Do not edit it. -->\<newline>'' @
          ''\<newline>'' @
          ''    <title>'' @ t @ ''</title>\<newline>'' @
          ''    '' @ i @ ''\<newline>'' @
          ''</book>\<newline>'')\<close>
  by (simp add: py_format_def BOOK_TEMPLATE_def prepend_def)

lemma book_write_index:
  \<open>klass self = BookTransformer \<Longrightarrow> title self = Some t \<Longrightarrow>
    write_index self s =
      fs_write (path_join (output_dir self) ''index.xml'')
        (''<?xml version="1.0" encoding="UTF-8"?>\<newline>'' @
         ''<!DOCTYPE book [\<newline>'' @
         '']>\<newline>'' @
         ''<book xmlns="http://docbook.org/ns/docbook"\<newline>'' @
         ''  xmlns:xi="http://www.w3.org/2001/XInclude"\<newline>'' @
         ''  xmlns:xlink="http://www.w3.org/1999/xlink"\<newline>'' @
         ''  version="5.0"\<newline>'' @
         ''  xml:id="'' @ replace CHR '' '' CHR ''-'' (lower t) @ ''">\<newline>'' @
         ''\<newline>'' @
         ''    <!-- WARNING: This file is automatically generated. Do not edit it. -->\<newline>'' @
         ''\<newline>'' @
         ''    <title>'' @ t @ ''</title>\<newline>'' @
         ''    '' @ join ''\<newline>    '' (map xi_include (includes' self)) @ ''\<newline>'' @
         ''</book>\<newline>'') s\<close>
  by (simp add: write_index_with_def book_format)

lemma fs_write_file:
  "map_of (entries s) p \<noteq> Some Dir \<Longrightarrow>
   fs_write p c s = (Inr (), s\<lparr>entries := AList.update p (File c) (entries s),
                                trace := trace s @ [Write p]\<rparr>)"
  by (auto simp: fs_write_def split: option.splits entry.splits)

text \<open>
  C1. The chapter variant does not do what the book variant does: its template holds
  \<open>%(title)\<close> with no conversion type, so for every title, every list of includes and
  every file system \<open>write_index\<close> raises \<open>ValueError\<close> and writes nothing, where the
  book variant writes the index with the title as a child element.
\<close>

theorem ChapterTransformer_write_index_raises:
  \<open>write_index \<lparr>klass = ChapterTransformer, source_dir = src, output_dir = out,
                 index = ix, includes' = incs, title = Some t\<rparr> s = (Inl ValueError, s) \<and>
    write_index \<lparr>klass = BookTransformer, source_dir = src, output_dir = out,
                 index = ix, includes' = incs, title = Some t\<rparr> s =
      fs_write (path_join out ''index.xml'')
        (''<?xml version="1.0" encoding="UTF-8"?>\<newline>'' @
         ''<!DOCTYPE book [\<newline>'' @
         '']>\<newline>'' @
         ''<book xmlns="http://docbook.org/ns/docbook"\<newline>'' @
         ''  xmlns:xi="http://www.w3.org/2001/XInclude"\<newline>'' @
         ''  xmlns:xlink="http://www.w3.org/1999/xlink"\<newline>'' @
         ''  version="5.0"\<newline>'' @
         ''  xml:id="'' @ replace CHR '' '' CHR ''-'' (lower t) @ ''">\<newline>'' @
         ''\<newline>'' @
         ''    <!-- WARNING: This file is automatically generated. Do not edit it. -->\<newline>'' @
         ''\<newline>'' @
         ''    <title>'' @ t @ ''</title>\<newline>'' @
         ''    '' @ join ''\<newline>    '' (map xi_include incs) @ ''\<newline>'' @
         ''</book>\<newline>'') s\<close>
  by (simp add: write_index_with_def chapter_format_fails book_format)

subsection \<open>The entries of the index\<close>

lemma parse_references_list:
  "parse_references ft refs incs = Inr res \<Longrightarrow>
   res = incs @ [ft @ ''_'' @ u @ ''.xml''.
                 Some u \<leftarrow> map (\<lambda>r. get r ''refuri'') refs, CHR ''#'' \<notin> set u]"
proof (induction refs arbitrary: incs)
  case Nil
  then show ?case by simp
next
  case (Cons r refs)
  from Cons.prems obtain u where u: "get r ''refuri'' = Some u"
    by (auto split: option.splits)
  show ?case
  proof (cases "CHR ''#'' \<in> set u")
    case True
    with Cons.prems u have "parse_references ft refs incs = Inr res" by simp
    from Cons.IH [OF this] u True show ?thesis by simp
  next
    case False
    with Cons.prems u
    have "parse_references ft refs (incs @ [ft @ ''_'' @ u @ ''.xml'']) = Inr res" by simp
    from Cons.IH [OF this] u False show ?thesis by simp
  qed
qed

lemma folder_init_result:
  assumes "map_of (entries s) (path_join source ''index.xml'') = Some (File content)"
      and "etree_XML lx content = Inr doc"
      and "folder_init lx k source output s = (Inr self, s1)"
  shows "klass self = k \<and> output_dir self = output \<and> source_dir self = source \<and>
         includes' self =
           [file_toplevel k @ ''_'' @ u @ ''.xml''.
              Some u \<leftarrow> map (\<lambda>r. get r ''refuri'') (iter_tag ''reference'' doc),
              CHR ''#'' \<notin> set u]"
  using assms
  by (auto simp: folder_init_def parse_index_def fs_read_file
           dest!: parse_references_list
           split: sum.splits option.splits prod.splits if_splits)

text \<open>
  C4. When the constructor of a folder transformer returns, its includes are, in document
  order, the \<open>refuri\<close> of the \<open>reference\<close> elements of the source index that hold no
  \<open>#\<close>, each between the file tag of the class with an underscore and \<open>.xml\<close>; and
  the index the book variant writes lists one XInclude for each of them, in that order.
\<close>

theorem index_includes_in_order:
  assumes "map_of (entries s) (path_join source ''index.xml'') = Some (File content)"
      and "etree_XML lx content = Inr doc"
      and "folder_init lx k source output s = (Inr self, s1)"
  shows \<open>includes' self =
           [file_toplevel k @ ''_'' @ u @ ''.xml''.
              Some u \<leftarrow> map (\<lambda>r. get r ''refuri'') (iter_tag ''reference'' doc),
              CHR ''#'' \<notin> set u] \<and>
         (k = BookTransformer \<and> title self = Some t \<longrightarrow>
          write_index self s2 =
            fs_write (path_join output ''index.xml'')
              (''<?xml version="1.0" encoding="UTF-8"?>\<newline>'' @
               ''<!DOCTYPE book [\<newline>'' @
               '']>\<newline>'' @
               ''<book xmlns="http://docbook.org/ns/docbook"\<newline>'' @
               ''  xmlns:xi="http://www.w3.org/2001/XInclude"\<newline>'' @
               ''  xmlns:xlink="http://www.w3.org/1999/xlink"\<newline>'' @
               ''  version="5.0"\<newline>'' @
               ''  xml:id="'' @ replace CHR '' '' CHR ''-'' (lower t) @ ''">\<newline>'' @
               ''\<newline>'' @
               ''    <!-- WARNING: This file is automatically generated. Do not edit it. -->\<newline>'' @
               ''\<newline>'' @
               ''    <title>'' @ t @ ''</title>\<newline>'' @
               ''    '' @ join ''\<newline>    '' (map xi_include (includes' self)) @ ''\<newline>'' @
               ''</book>\<newline>'') s2)\<close>
proof -
  note r = folder_init_result [OF assms]
  have "k = BookTransformer \<Longrightarrow> title self = Some t \<Longrightarrow> ?thesis"
    using r book_write_index [of self t s2] by (simp del: write_index.simps)
  then show ?thesis using r by blast
qed

theorem index_includes_in_order_witness:
  \<open>\<exists>self s1. folder_init demo_lxml BookTransformer ''src'' ''out''
                 (demo_fs ''<anchored/>'' ''<page/>'') = (Inr self, s1) \<and>
     includes' self = [''chapter_foo.xml'', ''chapter_bar.xml''] \<and>
     write_index self s1 =
       fs_write ''out/index.xml''
         (''<?xml version="1.0" encoding="UTF-8"?>\<newline>'' @
          ''<!DOCTYPE book [\<newline>'' @
          '']>\<newline>'' @
          ''<book xmlns="http://docbook.org/ns/docbook"\<newline>'' @
          ''  xmlns:xi="http://www.w3.org/2001/XInclude"\<newline>'' @
          ''  xmlns:xlink="http://www.w3.org/1999/xlink"\<newline>'' @
          ''  version="5.0"\<newline>'' @
          ''  xml:id="user-guide">\<newline>'' @
          ''\<newline>'' @
          ''    <!-- WARNING: This file is automatically generated. Do not edit it. -->\<newline>'' @
          ''\<newline>'' @
          ''    <title>User Guide</title>\<newline>'' @
          ''    <xi:include href="chapter_foo.xml"/>\<newline>'' @
          ''    <xi:include href="chapter_bar.xml"/>\<newline>'' @
          ''</book>\<newline>'') s1\<close>
proof -
  let ?text = \<open>''<?xml version="1.0" encoding="UTF-8"?>\<newline>'' @
          ''<!DOCTYPE book [\<newline>'' @
          '']>\<newline>'' @
          ''<book xmlns="http://docbook.org/ns/docbook"\<newline>'' @
          ''  xmlns:xi="http://www.w3.org/2001/XInclude"\<newline>'' @
          ''  xmlns:xlink="http://www.w3.org/1999/xlink"\<newline>'' @
          ''  version="5.0"\<newline>'' @
          ''  xml:id="user-guide">\<newline>'' @
          ''\<newline>'' @
          ''    <!-- WARNING: This file is automatically generated. Do not edit it. -->\<newline>'' @
          ''\<newline>'' @
          ''    <title>User Guide</title>\<newline>'' @
          ''    <xi:include href="chapter_foo.xml"/>\<newline>'' @
          ''    <xi:include href="chapter_bar.xml"/>\<newline>'' @
          ''</book>\<newline>''\<close>
  let ?s = "demo_fs ''<anchored/>'' ''<page/>''"
  let ?self = "\<lparr>klass = BookTransformer, source_dir = ''src'', output_dir = ''out'',
                 index = ''index.xml'', includes' = [''chapter_foo.xml'', ''chapter_bar.xml''],
                 title = Some ''User Guide''\<rparr>"
  let ?s1 = "\<lparr>entries = [(''src'', Dir), (''src/foo.xml'', File ''<page/>''),
                  (''src/index.xml'', File ''<anchored/>''), (''src/bar.xml'', File ''<page/>''),
                  (''out'', Dir)],
       trace = [Read ''src/index.xml'', Mkdir ''out'']\<rparr>"
  have idx: "map_of (entries ?s) (path_join ''src'' ''index.xml'') = Some (File ''<anchored/>'')"
    by (simp add: demo_fs_def path_join_def startswith_def endswith_def)
  have doc: "etree_XML demo_lxml ''<anchored/>'' = Inr demo_anchored"
    by (simp add: demo_lxml_def)
  have init: "folder_init demo_lxml BookTransformer ''src'' ''out'' ?s = (Inr ?self, ?s1)"
    by (simp add: folder_init_def parse_index_def fs_read_def demo_fs_def demo_lxml_def
          demo_anchored_def iter_tag_def find_section_title_def path_join_def startswith_def
          endswith_def isdir_def makedirs_def)
  have refs: "map (\<lambda>r. get r ''refuri'') (iter_tag ''reference'' demo_anchored) =
                [Some ''foo'', Some ''foo#details'', Some ''bar'']"
    by (simp add: iter_tag_def demo_anchored_def)
  from index_includes_in_order [OF idx doc init, of "''User Guide''" ?s1]
  have "includes' ?self = [''chapter_foo.xml'', ''chapter_bar.xml''] \<and>
        write_index ?self ?s1 = fs_write ''out/index.xml'' ?text ?s1"
    unfolding refs
    by (simp add: path_join_def startswith_def endswith_def lower_def lower_char_def
          replace_def xi_include_def del: write_index.simps)
  with init show ?thesis by blast
qed

subsection \<open>The loop over the files\<close>

lemma transform_files_append:
  "transform_files lx self (xs @ ys) s =
     (case transform_files lx self xs s of
        (Inl e, s') \<Rightarrow> (Inl e, s')
      | (Inr u, s') \<Rightarrow> transform_files lx self ys s')"
  by (induction xs arbitrary: s) (auto simp: Let_def split: prod.splits sum.splits)

lemma file_transform_state:
  "XMLFileTransformer_transform lx src lvl s = (r, s') \<Longrightarrow>
   entries s' = entries s \<and> (trace s' = trace s \<or> trace s' = trace s @ [Read src])"
  by (auto simp: XMLFileTransformer_transform_def fs_read_def
           split: option.splits entry.splits sum.splits)

lemma output_file_not_index:
  "path_join out (file_toplevel k @ ''_'' @ b) \<noteq> path_join out ''index.xml''"
  by (cases k) (simp_all add: path_join_def startswith_def)

lemma fs_write_state:
  "fs_write p c s = (r, s') \<Longrightarrow>
   (s' = s \<or> (trace s' = trace s @ [Write p] \<and>
              entries s' = AList.update p (File c) (entries s)))"
  by (auto simp: fs_write_def split: option.splits entry.splits)

lemma transform_files_index_untouched:
  "transform_files lx self fl s = (r, s') \<Longrightarrow>
   map_of (entries s') (path_join (output_dir self) ''index.xml'') =
     map_of (entries s) (path_join (output_dir self) ''index.xml'') \<and>
   (\<exists>evs. trace s' = trace s @ evs \<and>
          Write (path_join (output_dir self) ''index.xml'') \<notin> set evs)"
proof (induction fl arbitrary: s)
  case Nil
  then show ?case by simp
next
  case (Cons src rest)
  let ?idx = "path_join (output_dir self) ''index.xml''"
  let ?out = "path_join (output_dir self) (file_toplevel (klass self) @ ''_'' @ basename src)"
  show ?case
  proof (cases "endswith src ''/index.xml''")
    case True
    with Cons show ?thesis by simp
  next
    case False
    obtain r1 s1 where t: "XMLFileTransformer_transform lx src (file_toplevel (klass self)) s = (r1, s1)"
      by (cases "XMLFileTransformer_transform lx src (file_toplevel (klass self)) s")
    from file_transform_state [OF t]
    have s1: "entries s1 = entries s" "\<exists>evs. trace s1 = trace s @ evs \<and> Write ?idx \<notin> set evs"
      by auto
    show ?thesis
    proof (cases r1)
      case (Inl e)
      with Cons.prems False t have "s' = s1" by simp
      with s1 show ?thesis by simp
    next
      case (Inr xml_text)
      obtain r2 s2 where w: "fs_write ?out xml_text s1 = (r2, s2)"
        by (cases "fs_write ?out xml_text s1")
      have neq: "?out \<noteq> ?idx" by (rule output_file_not_index)
      from fs_write_state [OF w] neq s1
      have s2: "map_of (entries s2) ?idx = map_of (entries s) ?idx"
               "\<exists>evs. trace s2 = trace s @ evs \<and> Write ?idx \<notin> set evs"
        by (auto simp: update_conv')
      show ?thesis
      proof (cases r2)
        case (Inl e)
        with Cons.prems False t Inr w have "s' = s2" by simp
        with s2 show ?thesis by simp
      next
        case (Inr u)
        with Cons.prems False t \<open>r1 = Inr xml_text\<close> w
        have "transform_files lx self rest s2 = (r, s')" by simp
        from Cons.IH [OF this] s2 show ?thesis by auto
      qed
    qed
  qed
qed

text \<open>
  C6. When the conversion of a file of the directory raises, after the files before it
  were converted and written, \<open>transform\<close> ends with that exception in the state the
  failed conversion left: no later file is read, the index of the output directory is
  what it was, and no write of it is among the events of the run.
\<close>

theorem folder_transform_aborts:
  assumes "glob_xml (source_dir self) s = earlier @ src # rest"
      and "\<not> endswith src ''/index.xml''"
      and "transform_files lx self earlier s = (Inr (), s1)"
      and "XMLFileTransformer_transform lx src (file_toplevel (klass self)) s1 = (Inl e, s2)"
  shows "folder_transform lx self s = (Inl e, s2) \<and>
         map_of (entries s2) (path_join (output_dir self) ''index.xml'') =
           map_of (entries s) (path_join (output_dir self) ''index.xml'') \<and>
         Write (path_join (output_dir self) ''index.xml'') \<notin>
           set (drop (length (trace s)) (trace s2))"
proof -
  let ?idx = "path_join (output_dir self) ''index.xml''"
  have loop: "transform_files lx self (earlier @ src # rest) s = (Inl e, s2)"
    using assms(2,3,4) by (simp add: transform_files_append)
  then have run: "folder_transform lx self s = (Inl e, s2)"
    using assms(1) by (simp add: folder_transform_def)
  from transform_files_index_untouched [OF loop]
  have "map_of (entries s2) ?idx = map_of (entries s) ?idx"
    and "\<exists>evs. trace s2 = trace s @ evs \<and> Write ?idx \<notin> set evs"
    by auto
  with run show ?thesis by auto
qed


theorem folder_transform_aborts_witness:
  "\<exists>s2. folder_transform demo_lxml
           \<lparr>klass = BookTransformer, source_dir = ''src'', output_dir = ''out'',
            index = ''index.xml'', includes' = [''chapter_foo.xml'', ''chapter_bar.xml''],
            title = Some ''Release Notes''\<rparr>
           (demo_fs ''<index/>'' ''<broken'') = (Inl XMLSyntaxError, s2) \<and>
         map_of (entries s2) ''out/index.xml'' = None \<and>
         Write ''out/index.xml'' \<notin> set (trace s2)"
proof -
  let ?self = "\<lparr>klass = BookTransformer, source_dir = ''src'', output_dir = ''out'',
            index = ''index.xml'', includes' = [''chapter_foo.xml'', ''chapter_bar.xml''],
            title = Some ''Release Notes''\<rparr>"
  let ?s = "demo_fs ''<index/>'' ''<broken''"
  have g: "glob_xml (source_dir ?self) ?s = [''src/foo.xml'', ''src/index.xml''] @ ''src/bar.xml'' # []"
    by (simp add: glob_xml_def demo_fs_def path_join_def startswith_def endswith_def fnmatch_xml_def)
  have n: "\<not> endswith ''src/bar.xml'' ''/index.xml''"
    by (simp add: endswith_def)
  define s1 where "s1 = ?s\<lparr>entries := entries ?s @ [(''out/chapter_foo.xml'', File ''<{http://docbook.org/ns/docbook}chapter/>'')],
                       trace := [Read ''src/foo.xml'', Write ''out/chapter_foo.xml'']\<rparr>"
  have e: "transform_files demo_lxml ?self [''src/foo.xml'', ''src/index.xml''] ?s = (Inr (), s1)"
    by (simp add: s1_def demo_fs_def demo_lxml_def demo_page_def XMLFileTransformer_transform_def
        fs_read_def fs_write_def path_join_def startswith_def endswith_def basename_def Let_def
        normalize_ids_Element)
  have f: "XMLFileTransformer_transform demo_lxml ''src/bar.xml'' (file_toplevel (klass ?self)) s1 =
             (Inl XMLSyntaxError, s1\<lparr>trace := trace s1 @ [Read ''src/bar.xml'']\<rparr>)"
    by (simp add: s1_def demo_fs_def demo_lxml_def XMLFileTransformer_transform_def fs_read_def)
  from folder_transform_aborts [OF g n e f]
  show ?thesis
    by (simp add: s1_def demo_fs_def path_join_def startswith_def endswith_def)
qed

text \<open>
  C5. Directory mode on the sample directory with \<open>--toplevel chapter\<close>: both pages are
  converted and written as \<open>section_foo.xml\<close> and \<open>section_bar.xml\<close>, and then
  \<open>write_index\<close> raises \<open>ValueError\<close>; no \<open>index.xml\<close> is produced.
\<close>

theorem chapter_mode_writes_no_index:
  "main demo_lxml ''src'' ''out'' ''chapter'' (demo_fs ''<index/>'' ''<page/>'') =
     (Inl ValueError,
      \<lparr>entries = [(''src'', Dir), (''src/foo.xml'', File ''<page/>''),
                  (''src/index.xml'', File ''<index/>''), (''src/bar.xml'', File ''<page/>''),
                  (''out'', Dir),
                  (''out/section_foo.xml'', File ''<{http://docbook.org/ns/docbook}section/>''),
                  (''out/section_bar.xml'', File ''<{http://docbook.org/ns/docbook}section/>'')],
       trace = [Read ''src/index.xml'', Mkdir ''out'',
                Read ''src/foo.xml'', Write ''out/section_foo.xml'',
                Read ''src/bar.xml'', Write ''out/section_bar.xml'']\<rparr>)"
proof -
  have init: "folder_init demo_lxml ChapterTransformer ''src'' ''out'' (demo_fs ''<index/>'' ''<page/>'') =
     (Inr \<lparr>klass = ChapterTransformer, source_dir = ''src'', output_dir = ''out'',
           index = ''index.xml'', includes' = [''section_foo.xml'', ''section_bar.xml''],
           title = Some ''Release Notes''\<rparr>,
      \<lparr>entries = [(''src'', Dir), (''src/foo.xml'', File ''<page/>''),
                  (''src/index.xml'', File ''<index/>''), (''src/bar.xml'', File ''<page/>''),
                  (''out'', Dir)],
       trace = [Read ''src/index.xml'', Mkdir ''out'']\<rparr>)"
    by (simp add: folder_init_def parse_index_def fs_read_def demo_fs_def demo_lxml_def
          demo_index_def iter_tag_def find_section_title_def path_join_def startswith_def
          endswith_def isdir_def makedirs_def)
  have dir: "isdir (demo_fs ''<index/>'' ''<page/>'') ''src''"
    by (simp add: isdir_def demo_fs_def)
  have "main demo_lxml ''src'' ''out'' ''chapter'' (demo_fs ''<index/>'' ''<page/>'') =
        folder_transform demo_lxml
          \<lparr>klass = ChapterTransformer, source_dir = ''src'', output_dir = ''out'',
           index = ''index.xml'', includes' = [''section_foo.xml'', ''section_bar.xml''],
           title = Some ''Release Notes''\<rparr>
          \<lparr>entries = [(''src'', Dir), (''src/foo.xml'', File ''<page/>''),
                  (''src/index.xml'', File ''<index/>''), (''src/bar.xml'', File ''<page/>''),
                  (''out'', Dir)],
           trace = [Read ''src/index.xml'', Mkdir ''out'']\<rparr>"
    by (simp add: main_def dir TRANSFORMERS_def init)
  also have "\<dots> = (Inl ValueError,
      \<lparr>entries = [(''src'', Dir), (''src/foo.xml'', File ''<page/>''),
                  (''src/index.xml'', File ''<index/>''), (''src/bar.xml'', File ''<page/>''),
                  (''out'', Dir),
                  (''out/section_foo.xml'', File ''<{http://docbook.org/ns/docbook}section/>''),
                  (''out/section_bar.xml'', File ''<{http://docbook.org/ns/docbook}section/>'')],
       trace = [Read ''src/index.xml'', Mkdir ''out'',
                Read ''src/foo.xml'', Write ''out/section_foo.xml'',
                Read ''src/bar.xml'', Write ''out/section_bar.xml'']\<rparr>)"
    by (simp add: folder_transform_def glob_xml_def
          path_join_def startswith_def endswith_def fnmatch_xml_def basename_def Let_def
          XMLFileTransformer_transform_def fs_read_def fs_write_def demo_lxml_def
          demo_page_def normalize_ids_Element write_index_with_def chapter_format_fails)
  finally show ?thesis .
qed

subsection \<open>The round trip of a book\<close>

lemma three_orders:
  assumes "distinct xs" and "set xs = {a, b, c}" and "a \<noteq> b" and "a \<noteq> c" and "b \<noteq> c"
  shows "xs \<in> {[a, b, c], [a, c, b], [b, a, c], [b, c, a], [c, a, b], [c, b, a]}"
proof -
  have "length xs = 3"
    using assms distinct_card [of xs] by simp
  then obtain x y z where xs: "xs = [x, y, z]"
    by (auto simp: length_Suc_conv numeral_3_eq_3)
  have "x \<in> {a, b, c}" "y \<in> {a, b, c}" "z \<in> {a, b, c}"
    using assms(2) xs by auto
  moreover have "x \<noteq> y" "x \<noteq> z" "y \<noteq> z"
    using assms(1) xs by auto
  ultimately show ?thesis
    unfolding xs by auto
qed

lemma file_step:
  assumes "map_of (entries s) src = Some (File c)"
      and "etree_XML lx c = Inr d"
      and "xslt_transform lx d = Inr r"
      and "custom_transform lvl r = Inr t"
      and "map_of (entries s) out \<noteq> Some Dir"
  shows "(case XMLFileTransformer_transform lx src lvl s of
            (Inl e, s') \<Rightarrow> (Inl e, s')
          | (Inr xml_text, s') \<Rightarrow>
              (case fs_write out xml_text s' of
                 (Inl e, s'') \<Rightarrow> (Inl e, s'')
               | (Inr u, s'') \<Rightarrow> k s'')) =
         k (s\<lparr>entries := AList.update out (File (etree_tostring lx t)) (entries s),
               trace := trace s @ [Read src, Write out]\<rparr>)"
  using assms
  by (auto simp: XMLFileTransformer_transform_def fs_read_file fs_write_def
           split: option.splits entry.splits)


lemma book_files_any_order:
  assumes foo: "map_of (entries s) ''src/foo.xml'' = Some (File foo_text)"
      and bar: "map_of (entries s) ''src/bar.xml'' = Some (File bar_text)"
      and foo_out: "map_of (entries s) ''out/chapter_foo.xml'' \<noteq> Some Dir"
      and bar_out: "map_of (entries s) ''out/chapter_bar.xml'' \<noteq> Some Dir"
      and foo_ok: "etree_XML lx foo_text = Inr foo_doc" "xslt_transform lx foo_doc = Inr foo_root"
                  "custom_transform ''chapter'' foo_root = Inr foo_tree"
      and bar_ok: "etree_XML lx bar_text = Inr bar_doc" "xslt_transform lx bar_doc = Inr bar_root"
                  "custom_transform ''chapter'' bar_root = Inr bar_tree"
      and self: "klass self = BookTransformer" "output_dir self = ''out''"
      and fl: "fl \<in> {[''src/index.xml'', ''src/foo.xml'', ''src/bar.xml''],
                      [''src/index.xml'', ''src/bar.xml'', ''src/foo.xml''],
                      [''src/foo.xml'', ''src/index.xml'', ''src/bar.xml''],
                      [''src/foo.xml'', ''src/bar.xml'', ''src/index.xml''],
                      [''src/bar.xml'', ''src/index.xml'', ''src/foo.xml''],
                      [''src/bar.xml'', ''src/foo.xml'', ''src/index.xml'']}"
  shows "\<exists>s'. transform_files lx self fl s = (Inr (), s') \<and>
              map_of (entries s') =
                (map_of (entries s))
                  (''out/chapter_foo.xml'' \<mapsto> File (etree_tostring lx foo_tree),
                   ''out/chapter_bar.xml'' \<mapsto> File (etree_tostring lx bar_tree))"
proof -
  have idx: "endswith ''src/index.xml'' ''/index.xml''"
    and nfoo: "\<not> endswith ''src/foo.xml'' ''/index.xml''"
    and nbar: "\<not> endswith ''src/bar.xml'' ''/index.xml''"
    by (simp_all add: endswith_def)
  have base: "basename ''src/foo.xml'' = ''foo.xml''" "basename ''src/bar.xml'' = ''bar.xml''"
    by (simp_all add: basename_def)
  have out: "path_join ''out'' ''chapter_foo.xml'' = ''out/chapter_foo.xml''"
            "path_join ''out'' ''chapter_bar.xml'' = ''out/chapter_bar.xml''"
    by (simp_all add: path_join_def startswith_def endswith_def)
  have skip: "transform_files lx self (''src/index.xml'' # rest) s0 =
              transform_files lx self rest s0" for rest s0
    by (simp add: idx)
  have foo_step:
    "transform_files lx self (''src/foo.xml'' # rest) s0 =
     transform_files lx self rest
       (s0\<lparr>entries := AList.update ''out/chapter_foo.xml'' (File (etree_tostring lx foo_tree)) (entries s0),
           trace := trace s0 @ [Read ''src/foo.xml'', Write ''out/chapter_foo.xml'']\<rparr>)"
    if "map_of (entries s0) ''src/foo.xml'' = Some (File foo_text)"
      and "map_of (entries s0) ''out/chapter_foo.xml'' \<noteq> Some Dir" for rest s0
    using file_step [OF that(1) foo_ok that(2), of "transform_files lx self rest"]
    by (simp add: nfoo self base out Let_def)
  have bar_step:
    "transform_files lx self (''src/bar.xml'' # rest) s0 =
     transform_files lx self rest
       (s0\<lparr>entries := AList.update ''out/chapter_bar.xml'' (File (etree_tostring lx bar_tree)) (entries s0),
           trace := trace s0 @ [Read ''src/bar.xml'', Write ''out/chapter_bar.xml'']\<rparr>)"
    if "map_of (entries s0) ''src/bar.xml'' = Some (File bar_text)"
      and "map_of (entries s0) ''out/chapter_bar.xml'' \<noteq> Some Dir" for rest s0
    using file_step [OF that(1) bar_ok that(2), of "transform_files lx self rest"]
    by (simp add: nbar self base out Let_def)
  have all: "\<exists>s'. transform_files lx self fl0 s = (Inr (), s') \<and>
              map_of (entries s') =
                (map_of (entries s))
                  (''out/chapter_foo.xml'' \<mapsto> File (etree_tostring lx foo_tree),
                   ''out/chapter_bar.xml'' \<mapsto> File (etree_tostring lx bar_tree))"
    if "fl0 \<in> {[''src/index.xml'', ''src/foo.xml'', ''src/bar.xml''],
                      [''src/index.xml'', ''src/bar.xml'', ''src/foo.xml''],
                      [''src/foo.xml'', ''src/index.xml'', ''src/bar.xml''],
                      [''src/foo.xml'', ''src/bar.xml'', ''src/index.xml''],
                      [''src/bar.xml'', ''src/index.xml'', ''src/foo.xml''],
                      [''src/bar.xml'', ''src/foo.xml'', ''src/index.xml'']}" for fl0
    using that foo bar foo_out bar_out
    by (auto simp: skip foo_step bar_step update_conv' fun_upd_twist
             simp del: transform_files.simps(2))
  from all [OF fl] show ?thesis .
qed


lemma init_book:
  assumes idx: "map_of (entries s) ''src/index.xml'' = Some (File index_text)"
      and doc: "etree_XML lx index_text = Inr doc"
      and refs: "iter_tag ''reference'' doc = [r1, r2]"
                "get r1 ''refuri'' = Some ''foo''" "get r2 ''refuri'' = Some ''bar''"
      and ttl: "find_section_title doc = Some el" "text_of el = Some ''Release Notes''"
      and out: "map_of (entries s) ''out'' = None \<or> map_of (entries s) ''out'' = Some Dir"
  shows "\<exists>s1. folder_init lx BookTransformer ''src'' ''out'' s =
                (Inr \<lparr>klass = BookTransformer, source_dir = ''src'', output_dir = ''out'',
                      index = ''index.xml'',
                      includes' = [''chapter_foo.xml'', ''chapter_bar.xml''],
                      title = Some ''Release Notes''\<rparr>, s1) \<and>
              map_of (entries s1) = (map_of (entries s))(''out'' \<mapsto> Dir) \<and>
              glob_xml ''src'' s1 = glob_xml ''src'' s"
proof -
  have p: "path_join ''src'' ''index.xml'' = ''src/index.xml''"
    by (simp add: path_join_def startswith_def endswith_def)
  let ?self = "\<lparr>klass = BookTransformer, source_dir = ''src'', output_dir = ''out'',
                      index = ''index.xml'',
                      includes' = [''chapter_foo.xml'', ''chapter_bar.xml''],
                      title = Some ''Release Notes''\<rparr>"
  let ?sr = "s\<lparr>trace := trace s @ [Read ''src/index.xml'']\<rparr>"
  have parse: "parse_index lx \<lparr>klass = BookTransformer, source_dir = ''src'',
                  output_dir = ''out'', index = ''index.xml'', includes' = [],
                  title = None\<rparr> s = (Inr ?self, ?sr)"
    using idx doc refs ttl by (simp add: parse_index_def p fs_read_file)
  from out show ?thesis
  proof
    assume none: "map_of (entries s) ''out'' = None"
    have "folder_init lx BookTransformer ''src'' ''out'' s =
            (Inr ?self, ?sr\<lparr>entries := entries s @ [(''out'', Dir)],
                             trace := trace ?sr @ [Mkdir ''out'']\<rparr>)"
      using none by (simp add: folder_init_def parse isdir_def makedirs_def)
    moreover have "map_of (entries s @ [(''out'', Dir)]) = (map_of (entries s))(''out'' \<mapsto> Dir)"
      using none by (auto simp: map_add_def fun_eq_iff split: option.splits)
    moreover have "glob_xml ''src'' (?sr\<lparr>entries := entries s @ [(''out'', Dir)],
                             trace := trace ?sr @ [Mkdir ''out'']\<rparr>) = glob_xml ''src'' s"
      by (simp add: glob_xml_def path_join_def startswith_def endswith_def)
    ultimately show ?thesis by simp
  next
    assume dir: "map_of (entries s) ''out'' = Some Dir"
    have "folder_init lx BookTransformer ''src'' ''out'' s = (Inr ?self, ?sr)"
      using dir by (simp add: folder_init_def parse isdir_def)
    moreover have "map_of (entries s) = (map_of (entries s))(''out'' \<mapsto> Dir)"
      using dir by (auto simp: fun_eq_iff)
    moreover have "glob_xml ''src'' ?sr = glob_xml ''src'' s"
      by (simp add: glob_xml_def)
    ultimately show ?thesis by simp
  qed
qed


text \<open>
  C3. A source directory \<open>src\<close> whose index has the title \<open>Release Notes\<close> and the two
  references \<open>foo\<close> and \<open>bar\<close>, in that order, and which holds \<open>foo.xml\<close> and
  \<open>bar.xml\<close> beside it, whatever the order in which the system lists the three files:
  when both pages convert, \<open>main\<close> with \<open>--toplevel book\<close> returns, and the file
  system differs from the one it started from by the directory \<open>out\<close>, by
  \<open>chapter_foo.xml\<close> and \<open>chapter_bar.xml\<close> holding the converted pages, and by
  \<open>index.xml\<close> with the title, the id \<open>release-notes\<close> and the two XIncludes in the
  order of the references; the index is the last file written.
\<close>

theorem book_round_trip:
  assumes dir: "map_of (entries s) ''src'' = Some Dir"
      and idx: "map_of (entries s) ''src/index.xml'' = Some (File index_text)"
      and foo: "map_of (entries s) ''src/foo.xml'' = Some (File foo_text)"
      and bar: "map_of (entries s) ''src/bar.xml'' = Some (File bar_text)"
      and listing: "distinct (glob_xml ''src'' s)"
                   "set (glob_xml ''src'' s) = {''src/index.xml'', ''src/foo.xml'', ''src/bar.xml''}"
      and out: "map_of (entries s) ''out'' = None \<or> map_of (entries s) ''out'' = Some Dir"
      and out_files: "map_of (entries s) ''out/chapter_foo.xml'' \<noteq> Some Dir"
                     "map_of (entries s) ''out/chapter_bar.xml'' \<noteq> Some Dir"
                     "map_of (entries s) ''out/index.xml'' \<noteq> Some Dir"
      and doc: "etree_XML lx index_text = Inr doc"
      and refs: "iter_tag ''reference'' doc = [r1, r2]"
                "get r1 ''refuri'' = Some ''foo''" "get r2 ''refuri'' = Some ''bar''"
      and ttl: "find_section_title doc = Some el" "text_of el = Some ''Release Notes''"
      and foo_ok: "etree_XML lx foo_text = Inr foo_doc" "xslt_transform lx foo_doc = Inr foo_root"
                  "custom_transform ''chapter'' foo_root = Inr foo_tree"
      and bar_ok: "etree_XML lx bar_text = Inr bar_doc" "xslt_transform lx bar_doc = Inr bar_root"
                  "custom_transform ''chapter'' bar_root = Inr bar_tree"
  shows \<open>\<exists>s'. main lx ''src'' ''out'' ''book'' s = (Inr (), s') \<and>
              map_of (entries s') =
                (map_of (entries s))
                  (''out'' \<mapsto> Dir,
                   ''out/chapter_foo.xml'' \<mapsto> File (etree_tostring lx foo_tree),
                   ''out/chapter_bar.xml'' \<mapsto> File (etree_tostring lx bar_tree),
                   ''out/index.xml'' \<mapsto> File
                     (''<?xml version="1.0" encoding="UTF-8"?>\<newline>'' @
                      ''<!DOCTYPE book [\<newline>'' @
                      '']>\<newline>'' @
                      ''<book xmlns="http://docbook.org/ns/docbook"\<newline>'' @
                      ''  xmlns:xi="http://www.w3.org/2001/XInclude"\<newline>'' @
                      ''  xmlns:xlink="http://www.w3.org/1999/xlink"\<newline>'' @
                      ''  version="5.0"\<newline>'' @
                      ''  xml:id="release-notes">\<newline>'' @
                      ''\<newline>'' @
                      ''    <!-- WARNING: This file is automatically generated. Do not edit it. -->\<newline>'' @
                      ''\<newline>'' @
                      ''    <title>Release Notes</title>\<newline>'' @
                      ''    <xi:include href="chapter_foo.xml"/>\<newline>'' @
                      ''    <xi:include href="chapter_bar.xml"/>\<newline>'' @
                      ''</book>\<newline>'')) \<and>
              last (trace s') = Write ''out/index.xml''\<close>
proof -
  let ?self = "\<lparr>klass = BookTransformer, source_dir = ''src'', output_dir = ''out'',
                 index = ''index.xml'',
                 includes' = [''chapter_foo.xml'', ''chapter_bar.xml''],
                 title = Some ''Release Notes''\<rparr>"
  let ?text = \<open>''<?xml version="1.0" encoding="UTF-8"?>\<newline>'' @
                      ''<!DOCTYPE book [\<newline>'' @
                      '']>\<newline>'' @
                      ''<book xmlns="http://docbook.org/ns/docbook"\<newline>'' @
                      ''  xmlns:xi="http://www.w3.org/2001/XInclude"\<newline>'' @
                      ''  xmlns:xlink="http://www.w3.org/1999/xlink"\<newline>'' @
                      ''  version="5.0"\<newline>'' @
                      ''  xml:id="release-notes">\<newline>'' @
                      ''\<newline>'' @
                      ''    <!-- WARNING: This file is automatically generated. Do not edit it. -->\<newline>'' @
                      ''\<newline>'' @
                      ''    <title>Release Notes</title>\<newline>'' @
                      ''    <xi:include href="chapter_foo.xml"/>\<newline>'' @
                      ''    <xi:include href="chapter_bar.xml"/>\<newline>'' @
                      ''</book>\<newline>''\<close>
  from init_book [OF idx doc refs ttl out]
  obtain s1 where init: "folder_init lx BookTransformer ''src'' ''out'' s = (Inr ?self, s1)"
    and m1: "map_of (entries s1) = (map_of (entries s))(''out'' \<mapsto> Dir)"
    and g1: "glob_xml ''src'' s1 = glob_xml ''src'' s"
    by blast
  have orders: "glob_xml ''src'' s1 \<in>
                 {[''src/index.xml'', ''src/foo.xml'', ''src/bar.xml''],
                  [''src/index.xml'', ''src/bar.xml'', ''src/foo.xml''],
                  [''src/foo.xml'', ''src/index.xml'', ''src/bar.xml''],
                  [''src/foo.xml'', ''src/bar.xml'', ''src/index.xml''],
                  [''src/bar.xml'', ''src/index.xml'', ''src/foo.xml''],
                  [''src/bar.xml'', ''src/foo.xml'', ''src/index.xml'']}"
    unfolding g1 by (rule three_orders [OF listing]) simp_all
  have in1: "map_of (entries s1) ''src/foo.xml'' = Some (File foo_text)"
            "map_of (entries s1) ''src/bar.xml'' = Some (File bar_text)"
            "map_of (entries s1) ''out/chapter_foo.xml'' \<noteq> Some Dir"
            "map_of (entries s1) ''out/chapter_bar.xml'' \<noteq> Some Dir"
    using foo bar out_files by (simp_all add: m1)
  from book_files_any_order [OF in1 foo_ok bar_ok _ _ orders, of ?self]
  obtain s2 where loop: "transform_files lx ?self (glob_xml ''src'' s1) s1 = (Inr (), s2)"
    and m2: "map_of (entries s2) =
               (map_of (entries s1))
                 (''out/chapter_foo.xml'' \<mapsto> File (etree_tostring lx foo_tree),
                  ''out/chapter_bar.xml'' \<mapsto> File (etree_tostring lx bar_tree))"
    by auto
  have free: "map_of (entries s2) ''out/index.xml'' \<noteq> Some Dir"
    using out_files by (simp add: m2 m1)
  have p: "path_join ''out'' ''index.xml'' = ''out/index.xml''"
    by (simp add: path_join_def startswith_def endswith_def)
  have isd: "isdir s ''src''"
    using dir by (simp add: isdir_def)
  have run: "main lx ''src'' ''out'' ''book'' s = write_index ?self s2"
    by (simp add: main_def isd TRANSFORMERS_def init folder_transform_def loop)
  also have "\<dots> = fs_write ''out/index.xml'' ?text s2"
    using book_write_index [of ?self "''Release Notes''" s2]
    by (simp add: p lower_def lower_char_def replace_def xi_include_def
             del: write_index.simps)
  also have "\<dots> = (Inr (), s2\<lparr>entries := AList.update ''out/index.xml'' (File ?text) (entries s2),
                                trace := trace s2 @ [Write ''out/index.xml'']\<rparr>)"
    by (rule fs_write_file [OF free])
  finally show ?thesis
    by (simp add: update_conv' m2 m1)
qed


theorem book_round_trip_witness:
  \<open>\<exists>s'. main demo_lxml ''src'' ''out'' ''book'' (demo_fs ''<index/>'' ''<page/>'') = (Inr (), s') \<and>
         map_of (entries s') ''out/chapter_foo.xml'' =
           Some (File ''<{http://docbook.org/ns/docbook}chapter/>'') \<and>
         map_of (entries s') ''out/chapter_bar.xml'' =
           Some (File ''<{http://docbook.org/ns/docbook}chapter/>'') \<and>
         map_of (entries s') ''out/index.xml'' =
           Some (File
             (''<?xml version="1.0" encoding="UTF-8"?>\<newline>'' @
              ''<!DOCTYPE book [\<newline>'' @
              '']>\<newline>'' @
              ''<book xmlns="http://docbook.org/ns/docbook"\<newline>'' @
              ''  xmlns:xi="http://www.w3.org/2001/XInclude"\<newline>'' @
              ''  xmlns:xlink="http://www.w3.org/1999/xlink"\<newline>'' @
              ''  version="5.0"\<newline>'' @
              ''  xml:id="release-notes">\<newline>'' @
              ''\<newline>'' @
              ''    <!-- WARNING: This file is automatically generated. Do not edit it. -->\<newline>'' @
              ''\<newline>'' @
              ''    <title>Release Notes</title>\<newline>'' @
              ''    <xi:include href="chapter_foo.xml"/>\<newline>'' @
              ''    <xi:include href="chapter_bar.xml"/>\<newline>'' @
              ''</book>\<newline>'')) \<and>
         map_of (entries s') ''out'' = Some Dir \<and>
         last (trace s') = Write ''out/index.xml''\<close>
proof -
  let ?s = "demo_fs ''<index/>'' ''<page/>''"
  let ?tree = "normalize_ids
     (Element (''{http://docbook.org/ns/docbook}'' @ ''chapter'') [(id_attrib, ''foo id1'')] None
        [Comment WARNING None,
         Element ''{http://docbook.org/ns/docbook}title'' [] (Some ''Foo'') [] None,
         Comment ''generated by docutils'' None]
        None)"
  have dir: "map_of (entries ?s) ''src'' = Some Dir"
    and idx: "map_of (entries ?s) ''src/index.xml'' = Some (File ''<index/>'')"
    and foo: "map_of (entries ?s) ''src/foo.xml'' = Some (File ''<page/>'')"
    and bar: "map_of (entries ?s) ''src/bar.xml'' = Some (File ''<page/>'')"
    and out: "map_of (entries ?s) ''out'' = None \<or> map_of (entries ?s) ''out'' = Some Dir"
    and out_files: "map_of (entries ?s) ''out/chapter_foo.xml'' \<noteq> Some Dir"
                   "map_of (entries ?s) ''out/chapter_bar.xml'' \<noteq> Some Dir"
                   "map_of (entries ?s) ''out/index.xml'' \<noteq> Some Dir"
    by (simp_all add: demo_fs_def)
  have g: "glob_xml ''src'' ?s = [''src/foo.xml'', ''src/index.xml'', ''src/bar.xml'']"
    by (simp add: glob_xml_def demo_fs_def path_join_def startswith_def endswith_def
          fnmatch_xml_def)
  have listing: "distinct (glob_xml ''src'' ?s)"
       "set (glob_xml ''src'' ?s) = {''src/index.xml'', ''src/foo.xml'', ''src/bar.xml''}"
    unfolding g by auto
  have doc: "etree_XML demo_lxml ''<index/>'' = Inr demo_index"
    and page: "etree_XML demo_lxml ''<page/>'' = Inr demo_page"
              "xslt_transform demo_lxml demo_page = Inr (Some demo_page)"
              "custom_transform ''chapter'' (Some demo_page) = Inr ?tree"
    by (simp_all add: demo_lxml_def demo_page_def)
  have refs: "iter_tag ''reference'' demo_index =
                [Element ''reference'' [(''refuri'', ''foo'')] (Some ''Foo'') [] None,
                 Element ''reference'' [(''refuri'', ''bar'')] (Some ''Bar'') [] None]"
             "get (Element ''reference'' [(''refuri'', ''foo'')] (Some ''Foo'') [] None) ''refuri'' =
                Some ''foo''"
             "get (Element ''reference'' [(''refuri'', ''bar'')] (Some ''Bar'') [] None) ''refuri'' =
                Some ''bar''"
    by (simp_all add: iter_tag_def demo_index_def)
  have ttl: "find_section_title demo_index =
               Some (Element ''title'' [] (Some ''Release Notes'') [] None)"
            "text_of (Element ''title'' [] (Some ''Release Notes'') [] None) =
               Some ''Release Notes''"
    by (simp_all add: find_section_title_def demo_index_def)
  from book_round_trip [OF dir idx foo bar listing out out_files doc refs ttl page page]
  show ?thesis
    by (auto simp: demo_lxml_def normalize_ids_Element)
qed

end
